theory Spec2Isabelle
  imports Main "HOL-Library.Word"
begin

section \<open>QR check-in: scan resolution and scanner lifecycle\<close>

text \<open>
  The development embeds the two units of the check-in application that decide what a scan
  does: the page \<^verbatim>\<open>src/pages/QrScanner.tsx\<close> (the scan commit \<^verbatim>\<open>handleScan\<close> and its
  validating wrapper) and the component \<^verbatim>\<open>src/components/QrScanner.tsx\<close> (the camera
  lifecycle, the confirmation modal and its timers).

  Conventions of the embedding:
  \<^item> a JavaScript string is the list of its UTF-16 code units; a string is falsy exactly
    when it is empty;
  \<^item> \<^verbatim>\<open>null\<close> and \<^verbatim>\<open>undefined\<close> are \<open>None\<close>;
  \<^item> a promise that rejects (a \<^verbatim>\<open>throw\<close> inside an \<^verbatim>\<open>async\<close> function) is \<open>Inl\<close>, a
    promise that resolves is \<open>Inr\<close>;
  \<^item> React state and the external store are passed explicitly and returned updated;
  \<^item> an \<^verbatim>\<open>async\<close> handler is run to completion against the store it is given: what other
    clients do to the store between two handlers is expressed by handing the next handler a
    different store.
  Record fields carry a short prefix (\<open>a_\<close>, \<open>p_\<close>, \<open>log_\<close>, \<open>u_\<close>) because the source
  reuses the field names \<^verbatim>\<open>id\<close>, \<^verbatim>\<open>name\<close> and \<^verbatim>\<open>eventId\<close> across its types.
\<close>

subsection \<open>Strings\<close>

type_synonym jsstring = "16 word list"

definition js :: "string \<Rightarrow> jsstring" where
  "js s = map (\<lambda>c. of_nat (of_char c)) s"

text \<open>
  \<^verbatim>\<open>String.prototype.trim\<close> removes the code units that ECMAScript calls white space or
  line terminators from both ends of the string.
\<close>

definition is_ws :: "16 word \<Rightarrow> bool" where
  "is_ws c \<longleftrightarrow> c \<in> set [0x0009, 0x000A, 0x000B, 0x000C, 0x000D, 0x0020, 0x00A0, 0x1680,
     0x2000, 0x2001, 0x2002, 0x2003, 0x2004, 0x2005, 0x2006, 0x2007, 0x2008, 0x2009, 0x200A,
     0x2028, 0x2029, 0x202F, 0x205F, 0x3000, 0xFEFF]"

definition trim :: "jsstring \<Rightarrow> jsstring" where
  "trim s = rev (dropWhile is_ws (rev (dropWhile is_ws s)))"

subsection \<open>Data model (\<^verbatim>\<open>src/types\<close>)\<close>

record Activity =
  a_id :: jsstring
  a_name :: jsstring
  a_eventId :: jsstring

record Participant =
  p_id :: jsstring
  p_name :: jsstring
  p_qrCode :: jsstring
  p_currentActivityId :: "jsstring option"

record User =
  u_id :: jsstring

datatype LogType = departure | return | change

datatype ScanType = Departure | Return

text \<open>
  The object handed to \<^verbatim>\<open>createActivityLog\<close>. \<^verbatim>\<open>activityId\<close> has the type
  \<^verbatim>\<open>string | null\<close> at the call sites; a field the call site leaves out
  (\<^verbatim>\<open>fromActivityId\<close>) is \<open>None\<close>.
\<close>

record ActivityLog =
  log_eventId :: jsstring
  log_participantId :: jsstring
  log_activityId :: "jsstring option"
  log_fromActivityId :: "jsstring option"
  log_leaderId :: jsstring
  log_type :: LogType

subsection \<open>The external store (\<^verbatim>\<open>src/utils/firebase\<close>)\<close>

text \<open>
  Every call the two units make on the store. The store records the calls it receives, in
  order, so that a theorem can say which calls a handler made and which it did not.
\<close>

datatype call =
    GetParticipantByQrCode jsstring "jsstring option"
  | GetParticipantCurrentActivity jsstring
  | CreateActivityLog ActivityLog
  | UpdateParticipantLocation jsstring jsstring "jsstring option"

datatype rejection = Rejected call

record world =
  st_activities :: "Activity list"
  st_participants :: "Participant list"
  st_logs :: "ActivityLog list"
  rejects :: "call \<Rightarrow> bool"
  calls :: "call list"
  alerts :: "jsstring list"
  console :: "rejection list"

type_synonym 'a io = "world \<Rightarrow> (rejection + 'a) \<times> world"

definition io_return :: "'a \<Rightarrow> 'a io" where
  "io_return x w = (Inr x, w)"

definition io_bind :: "'a io \<Rightarrow> ('a \<Rightarrow> 'b io) \<Rightarrow> 'b io" where
  "io_bind m f w = (case m w of (Inl e, w') \<Rightarrow> (Inl e, w') | (Inr x, w') \<Rightarrow> f x w')"

definition received :: "call \<Rightarrow> world \<Rightarrow> world" where
  "received c w = w\<lparr>calls := calls w @ [c]\<rparr>"

text \<open>
  Modelled from the spec: \<^verbatim>\<open>getParticipantByQrCode\<close> of \<^verbatim>\<open>src/utils/firebase\<close>, which is
  not among the sources. The spec calls it \<^verbatim>\<open>findParticipantByCode\<close>: a keyed lookup from a
  QR payload and an event id to a Participant or not-found. The store holds the participants
  of the event; the event id is recorded with the call.
\<close>

definition getParticipantByQrCode :: "jsstring \<Rightarrow> jsstring option \<Rightarrow> Participant option io" where
  "getParticipantByQrCode qrCode ev w =
     (let c = GetParticipantByQrCode qrCode ev in
      if rejects w c then (Inl (Rejected c), received c w)
      else (Inr (find (\<lambda>p. p_qrCode p = qrCode) (st_participants w)), received c w))"

text \<open>
  Modelled from the spec: \<^verbatim>\<open>getParticipantCurrentActivity\<close> of \<^verbatim>\<open>src/utils/firebase\<close>,
  which is not among the sources. The spec calls it \<^verbatim>\<open>getCurrentActivity\<close>: from a
  participant id to the Activity that the participant's \<^verbatim>\<open>currentActivityId\<close> points to, or
  none.
\<close>

definition currentActivityOf :: "world \<Rightarrow> jsstring \<Rightarrow> Activity option" where
  "currentActivityOf w pid =
     (case find (\<lambda>p. p_id p = pid) (st_participants w) of
        None \<Rightarrow> None
      | Some p \<Rightarrow> (case p_currentActivityId p of
                    None \<Rightarrow> None
                  | Some a \<Rightarrow> find (\<lambda>x. a_id x = a) (st_activities w)))"

definition getParticipantCurrentActivity :: "jsstring \<Rightarrow> Activity option io" where
  "getParticipantCurrentActivity pid w =
     (let c = GetParticipantCurrentActivity pid in
      if rejects w c then (Inl (Rejected c), received c w)
      else (Inr (currentActivityOf w pid), received c w))"

text \<open>
  Modelled from the spec: \<^verbatim>\<open>createActivityLog\<close> of \<^verbatim>\<open>src/utils/firebase\<close>, which is not
  among the sources. The spec calls it \<^verbatim>\<open>appendActivityLog\<close>: append-only, one record per
  call.
\<close>

definition createActivityLog :: "ActivityLog \<Rightarrow> unit io" where
  "createActivityLog l w =
     (let c = CreateActivityLog l in
      if rejects w c then (Inl (Rejected c), received c w)
      else (Inr (), (received c w)\<lparr>st_logs := st_logs w @ [l]\<rparr>))"

text \<open>
  Modelled from the spec: \<^verbatim>\<open>updateParticipantLocation\<close> of \<^verbatim>\<open>src/utils/firebase\<close>, which
  is not among the sources. The spec calls it \<^verbatim>\<open>setParticipantLocation\<close>: it overwrites the
  \<^verbatim>\<open>currentActivityId\<close> of the participant with the given id.
\<close>

definition setLocation :: "jsstring \<Rightarrow> jsstring option \<Rightarrow> Participant \<Rightarrow> Participant" where
  "setLocation pid aid p = (if p_id p = pid then p\<lparr>p_currentActivityId := aid\<rparr> else p)"

definition updateParticipantLocation :: "jsstring \<Rightarrow> jsstring \<Rightarrow> jsstring option \<Rightarrow> unit io" where
  "updateParticipantLocation ev pid aid w =
     (let c = UpdateParticipantLocation ev pid aid in
      if rejects w c then (Inl (Rejected c), received c w)
      else (Inr (), (received c w)\<lparr>st_participants := map (setLocation pid aid) (st_participants w)\<rparr>))"

text \<open>The \<^verbatim>\<open>currentActivityId\<close> field of the stored participant, when there is one.\<close>

definition locationOf :: "world \<Rightarrow> jsstring \<Rightarrow> jsstring option option" where
  "locationOf w pid = map_option p_currentActivityId (find (\<lambda>p. p_id p = pid) (st_participants w))"

subsection \<open>The page (\<^verbatim>\<open>src/pages/QrScanner.tsx\<close>)\<close>

text \<open>
  The state of \<^verbatim>\<open>QrScannerPage\<close> that its handlers read or write. \<^verbatim>\<open>scanType\<close> is
  \<^verbatim>\<open>'departure' | 'return' | ''\<close>, the empty string being \<open>None\<close>.
\<close>

record page =
  eventId :: "jsstring option"
  user :: "User option"
  activities :: "Activity list"
  selectedActivityId :: jsstring
  scanType :: "ScanType option"
  loading :: bool
  pageError :: "jsstring option"
  showModal :: bool
  modalMessage :: jsstring

definition alert :: "jsstring \<Rightarrow> world \<Rightarrow> world" where
  "alert msg w = w\<lparr>alerts := alerts w @ [msg]\<rparr>"

definition console_error :: "rejection \<Rightarrow> world \<Rightarrow> world" where
  "console_error e w = w\<lparr>console := console w @ [e]\<rparr>"

text \<open>\<^verbatim>\<open>x || null\<close> on a string: the string when it is truthy.\<close>

definition truthy :: "jsstring \<Rightarrow> jsstring option" where
  "truthy s = (if s = [] then None else Some s)"

text \<open>\<^verbatim>\<open>user?.id\<close>, as far as the test \<^verbatim>\<open>!leaderId\<close> tells it apart.\<close>

definition leaderIdOf :: "User option \<Rightarrow> jsstring option" where
  "leaderIdOf u = (case u of None \<Rightarrow> None | Some usr \<Rightarrow> truthy (u_id usr))"

text \<open>
  The block \<^verbatim>\<open>if (scanType === 'departure') { ... }\<close> of \<^verbatim>\<open>handleScan\<close>. Its value is
  \<open>Some b\<close> when the block executes \<^verbatim>\<open>return b\<close> and \<open>None\<close> when control falls through to
  the next statement.
\<close>

definition departureLog :: "jsstring \<Rightarrow> jsstring \<Rightarrow> jsstring \<Rightarrow> jsstring option \<Rightarrow>
    Activity option \<Rightarrow> bool option io" where
  "departureLog ev leaderId participantId activityId currentActivity =
     (case currentActivity of
        Some ca \<Rightarrow>
          if Some (a_id ca) = activityId
          then (\<lambda>w. (Inr (Some False),
                 alert ([0x26A0, 0xFE0F] @ js '' Participant is already at this activity.'') w))
          else io_bind (createActivityLog
                 \<lparr>log_eventId = ev, log_participantId = participantId,
                  log_activityId = activityId, log_fromActivityId = Some (a_id ca),
                  log_leaderId = leaderId, log_type = change\<rparr>) (\<lambda>_. io_return None)
      | None \<Rightarrow>
          io_bind (createActivityLog
                 \<lparr>log_eventId = ev, log_participantId = participantId,
                  log_activityId = activityId, log_fromActivityId = None,
                  log_leaderId = leaderId, log_type = departure\<rparr>) (\<lambda>_. io_return None))"

definition departureBlock :: "page \<Rightarrow> jsstring \<Rightarrow> jsstring \<Rightarrow> jsstring \<Rightarrow> jsstring option \<Rightarrow>
    Activity option \<Rightarrow> bool option io" where
  "departureBlock pg ev leaderId participantId activityId currentActivity =
     (if scanType pg = Some Departure
      then io_bind (departureLog ev leaderId participantId activityId currentActivity)
             (\<lambda>r. case r of
                    Some b \<Rightarrow> io_return (Some b)
                  | None \<Rightarrow> io_bind (updateParticipantLocation ev participantId activityId)
                             (\<lambda>_. io_return None))
      else io_return None)"

text \<open>The block \<^verbatim>\<open>if (scanType === 'return') { ... }\<close>, with the same convention.\<close>

definition returnBlock :: "page \<Rightarrow> jsstring \<Rightarrow> jsstring \<Rightarrow> jsstring \<Rightarrow>
    Activity option \<Rightarrow> bool option io" where
  "returnBlock pg ev leaderId participantId currentActivity =
     (if scanType pg = Some Return
      then (case currentActivity of
              None \<Rightarrow> (\<lambda>w. (Inr (Some False),
                 alert ([0x26A0, 0xFE0F] @ js '' Participant is already not in a class.'') w))
            | Some ca \<Rightarrow>
                io_bind (createActivityLog
                  \<lparr>log_eventId = ev, log_participantId = participantId,
                   log_activityId = Some (a_id ca), log_fromActivityId = None,
                   log_leaderId = leaderId, log_type = return\<rparr>)
                  (\<lambda>_. io_bind (updateParticipantLocation ev participantId None)
                         (\<lambda>_. io_return None)))
      else io_return None)"

text \<open>The body of the \<^verbatim>\<open>try\<close> of \<^verbatim>\<open>handleScan\<close>.\<close>

definition handleScan_try :: "page \<Rightarrow> jsstring \<Rightarrow> jsstring \<Rightarrow> jsstring option \<Rightarrow> bool io" where
  "handleScan_try pg ev participantId activityId =
     (case leaderIdOf (user pg) of
        None \<Rightarrow> (\<lambda>w. (Inr False, alert (js ''Error: unable to identify scanner.'') w))
      | Some leaderId \<Rightarrow>
          io_bind (getParticipantCurrentActivity participantId) (\<lambda>currentActivity.
          io_bind (departureBlock pg ev leaderId participantId activityId currentActivity) (\<lambda>r1.
            case r1 of
              Some b \<Rightarrow> io_return b
            | None \<Rightarrow>
                io_bind (returnBlock pg ev leaderId participantId currentActivity) (\<lambda>r2.
                  case r2 of
                    Some b \<Rightarrow> io_return b
                  | None \<Rightarrow> io_return True))))"

text \<open>
  \<^verbatim>\<open>handleScan\<close>: the scan commit. It never rejects: the \<^verbatim>\<open>catch\<close> turns every rejection
  of a store call into the result \<^verbatim>\<open>false\<close>.
\<close>

definition truthyOpt :: "jsstring option \<Rightarrow> jsstring option" where
  "truthyOpt e = (case e of None \<Rightarrow> None | Some ev \<Rightarrow> truthy ev)"

definition handleScan :: "page \<Rightarrow> jsstring \<Rightarrow> jsstring option \<Rightarrow> world \<Rightarrow> bool \<times> world" where
  "handleScan pg participantId activityId w =
     (case truthyOpt (eventId pg) of
        None \<Rightarrow> (False, w)
      | Some ev \<Rightarrow>
          (case handleScan_try pg ev participantId activityId w of
             (Inl err, w') \<Rightarrow> (False, console_error err w')
           | (Inr b, w') \<Rightarrow> (b, w')))"



text \<open>
  \<^verbatim>\<open>validateAndHandleScan\<close>: the function the page hands to the component as \<^verbatim>\<open>onScan\<close>.
  It ignores its second argument (\<^verbatim>\<open>_activityId\<close>) and takes the target from the
  page's selection. It writes the page's modal state, so it runs on the page together with
  the store.
\<close>

type_synonym env = "page \<times> world"

definition validateAndHandleScan :: "jsstring \<Rightarrow> jsstring option \<Rightarrow> env \<Rightarrow> bool \<times> env" where
  "validateAndHandleScan participantId ignoredActivityId e =
     (case e of (pg, w) \<Rightarrow>
        let activityId = truthy (selectedActivityId pg) in
        (case scanType pg of
           None \<Rightarrow> (False, (pg\<lparr>modalMessage := js ''Please select a scan type before scanning.'',
                               showModal := True\<rparr>, w))
         | Some t \<Rightarrow>
             if t = Departure \<and> activityId = None
             then (False, (pg\<lparr>modalMessage := js ''Please select an activity for departure.'',
                               showModal := True\<rparr>, w))
             else (case handleScan pg participantId activityId w of
                     (b, w') \<Rightarrow> (b, (pg, w')))))"

text \<open>\<^verbatim>\<open>getCurrentActivity\<close>: the fetch with every rejection turned into \<^verbatim>\<open>null\<close>.\<close>

definition getCurrentActivity :: "jsstring \<Rightarrow> env \<Rightarrow> (rejection + Activity option) \<times> env" where
  "getCurrentActivity participantId e =
     (case e of (pg, w) \<Rightarrow>
        (case getParticipantCurrentActivity participantId w of
           (Inl err, w') \<Rightarrow> (Inr None, (pg, console_error err w'))
         | (Inr a, w') \<Rightarrow> (Inr a, (pg, w'))))"

subsection \<open>The component (\<^verbatim>\<open>src/components/QrScanner.tsx\<close>)\<close>

text \<open>
  The props of \<^verbatim>\<open>QrScanner\<close> that its handlers use. \<^verbatim>\<open>onScan\<close> is declared to return
  \<^verbatim>\<open>Promise<void>\<close>; the value the promise carries at run time is kept here, and the
  component does not look at it.
\<close>

record props =
  prop_selectedActivity :: "Activity option"
  prop_scanType :: ScanType
  onScan :: "jsstring \<Rightarrow> jsstring option \<Rightarrow> env \<Rightarrow> (rejection + bool) \<times> env"
  getParticipantInfo :: "jsstring \<Rightarrow> env \<Rightarrow> (rejection + Participant option) \<times> env"
  prop_getParticipantCurrentActivity :: "jsstring \<Rightarrow> env \<Rightarrow> (rejection + Activity option) \<times> env"

text \<open>
  What the page passes, when it renders the component at all: it renders the spinner while
  loading, a card on a load error or when there is no activity, and a prompt while no scan
  type (or, for departures, no activity) is selected.
\<close>

definition scannerProps :: "page \<Rightarrow> props option" where
  "scannerProps pg =
     (if loading pg then None
      else if truthyOpt (pageError pg) \<noteq> None then None
      else if activities pg = [] then None
      else (case scanType pg of
              None \<Rightarrow> None
            | Some t \<Rightarrow>
                if t = Departure \<and> selectedActivityId pg = [] then None
                else Some
                  \<lparr>prop_selectedActivity =
                     find (\<lambda>a. a_id a = selectedActivityId pg) (activities pg),
                   prop_scanType = t,
                   onScan = (\<lambda>participantId activityId e.
                      case validateAndHandleScan participantId activityId e of
                        (b, e') \<Rightarrow> (Inr b, e')),
                   getParticipantInfo = (\<lambda>qrCode e. case e of (pg', w) \<Rightarrow>
                      (case getParticipantByQrCode qrCode (eventId pg') w of
                         (r, w') \<Rightarrow> (r, (pg', w')))),
                   prop_getParticipantCurrentActivity = getCurrentActivity\<rparr>))"

text \<open>
  Timers. \<^verbatim>\<open>setTimeout\<close> hands out fresh positive handles; a pending timer carries the
  time at which it is due and the closure to run, named after the place that schedules it.
\<close>

datatype sound = SuccessSound | ErrorSound

datatype callback =
    IdleExpired
  | Rearm
  | NotFoundCooldown
  | DuplicateCooldown
  | EmptyReturnCooldown
  | ProcessingErrorCooldown
  | ConfirmErrorCooldown
  | PostConfirm
  | PostCancel

record timer =
  t_id :: nat
  t_due :: nat
  t_cb :: callback

text \<open>
  The state of the component (its \<^verbatim>\<open>useState\<close> cells and the \<^verbatim>\<open>idleTimer\<close> ref),
  together with what it owns in the browser: the pending timers, the clock in milliseconds
  and the sounds played so far.
\<close>

record scanner =
  scanning :: bool
  scannerKey :: nat
  error :: "jsstring option"
  confirmModalOpen :: bool
  scannedParticipant :: "Participant option"
  currentActivity :: "Activity option"
  idleTimer :: "nat option"
  timers :: "timer list"
  nextTimerId :: nat
  now :: nat
  sounds :: "sound list"

definition initScanner :: scanner where
  "initScanner = \<lparr>scanning = True, scannerKey = 0, error = None, confirmModalOpen = False,
     scannedParticipant = None, currentActivity = None, idleTimer = None, timers = [],
     nextTimerId = 1, now = 0, sounds = []\<rparr>"

definition setTimeout :: "callback \<Rightarrow> nat \<Rightarrow> scanner \<Rightarrow> nat \<times> scanner" where
  "setTimeout cb ms s =
     (nextTimerId s,
      s\<lparr>timers := timers s @ [\<lparr>t_id = nextTimerId s, t_due = now s + ms, t_cb = cb\<rparr>],
        nextTimerId := Suc (nextTimerId s)\<rparr>)"

definition clearTimeout :: "nat \<Rightarrow> scanner \<Rightarrow> scanner" where
  "clearTimeout i s = s\<lparr>timers := filter (\<lambda>t. t_id t \<noteq> i) (timers s)\<rparr>"

text \<open>\<^verbatim>\<open>if (idleTimer.current) clearTimeout(idleTimer.current)\<close>\<close>

definition clearIdleTimer :: "scanner \<Rightarrow> scanner" where
  "clearIdleTimer s =
     (case idleTimer s of
        None \<Rightarrow> s
      | Some i \<Rightarrow> if i = 0 then s else clearTimeout i s)"

definition IDLE_TIMEOUT :: nat where
  "IDLE_TIMEOUT = 60000"

definition playSound :: "sound \<Rightarrow> scanner \<Rightarrow> scanner" where
  "playSound x s = s\<lparr>sounds := sounds s @ [x]\<rparr>"

definition resetIdleTimer :: "scanner \<Rightarrow> scanner" where
  "resetIdleTimer s =
     (case setTimeout IdleExpired IDLE_TIMEOUT (clearIdleTimer s) of
        (i, s') \<Rightarrow> s'\<lparr>idleTimer := Some i\<rparr>)"

definition resetScanner :: "scanner \<Rightarrow> scanner" where
  "resetScanner s =
     (let s1 = clearIdleTimer s;
          s2 = s1\<lparr>scanning := False, scannerKey := Suc (scannerKey s1)\<rparr>
      in snd (setTimeout Rearm 500 s2))"

definition handleError :: "scanner \<Rightarrow> scanner" where
  "handleError s =
     resetScanner (playSound ErrorSound
       (s\<lparr>error := Some (js ''Error accessing camera. Please check permissions.'')\<rparr>))"

text \<open>The closures handed to \<^verbatim>\<open>setTimeout\<close>.\<close>

fun runCallback :: "callback \<Rightarrow> scanner \<Rightarrow> scanner" where
  "runCallback IdleExpired s = resetScanner s"
| "runCallback Rearm s = resetIdleTimer (s\<lparr>scanning := True\<rparr>)"
| "runCallback NotFoundCooldown s = resetScanner (s\<lparr>error := None\<rparr>)"
| "runCallback DuplicateCooldown s =
     resetScanner (s\<lparr>error := None, scannedParticipant := None, currentActivity := None\<rparr>)"
| "runCallback EmptyReturnCooldown s =
     resetScanner (s\<lparr>error := None, scannedParticipant := None\<rparr>)"
| "runCallback ProcessingErrorCooldown s = resetScanner (s\<lparr>error := None\<rparr>)"
| "runCallback ConfirmErrorCooldown s = resetScanner (s\<lparr>error := None\<rparr>)"
| "runCallback PostConfirm s = resetScanner s"
| "runCallback PostCancel s = resetScanner s"

text \<open>
  The browser runs a pending timer: the timer leaves the pending set, the clock is at least
  its due time, and its closure runs. A handle that is not pending does nothing.
\<close>

definition fire :: "nat \<Rightarrow> scanner \<Rightarrow> scanner" where
  "fire i s =
     (case find (\<lambda>t. t_id t = i) (timers s) of
        None \<Rightarrow> s
      | Some t \<Rightarrow> runCallback (t_cb t)
          (s\<lparr>timers := filter (\<lambda>t. t_id t \<noteq> i) (timers s), now := max (now s) (t_due t)\<rparr>))"

text \<open>
  Letting time pass up to the instant \<open>t\<close> with no other event: the pending timers due by
  then run in the order of their due times (the earlier scheduled first among equals),
  including those that the closures schedule on the way. The first argument bounds the
  number of timers run; \<open>None\<close> means the bound was too small.
\<close>

fun earliest :: "timer list \<Rightarrow> timer option" where
  "earliest [] = None"
| "earliest (x # xs) =
     (case earliest xs of
        None \<Rightarrow> Some x
      | Some y \<Rightarrow> if t_due x \<le> t_due y then Some x else Some y)"

definition nextDue :: "nat \<Rightarrow> scanner \<Rightarrow> timer option" where
  "nextDue t s = earliest (filter (\<lambda>x. t_due x \<le> t) (timers s))"

fun elapse :: "nat \<Rightarrow> nat \<Rightarrow> scanner \<Rightarrow> scanner option" where
  "elapse 0 t s = None"
| "elapse (Suc k) t s =
     (case nextDue t s of
        None \<Rightarrow> Some (s\<lparr>now := max (now s) t\<rparr>)
      | Some x \<Rightarrow> elapse k t (fire (t_id x) s))"

text \<open>
  \<^verbatim>\<open>participantActivity && participantActivity.id === selectedActivity?.id\<close>
\<close>

definition sameActivity :: "Activity option \<Rightarrow> Activity option \<Rightarrow> bool" where
  "sameActivity participantActivity selectedActivity =
     (case participantActivity of
        None \<Rightarrow> False
      | Some pa \<Rightarrow> Some (a_id pa) = map_option a_id selectedActivity)"

text \<open>
  The body of the \<^verbatim>\<open>try\<close> of the component's \<^verbatim>\<open>handleScan\<close>. State set before a rejection
  stays set, so the state is returned on both outcomes.
\<close>

definition QrScanner_handleScan_try :: "props \<Rightarrow> jsstring \<Rightarrow> scanner \<Rightarrow> env \<Rightarrow>
    (rejection + unit) \<times> scanner \<times> env" where
  "QrScanner_handleScan_try pr qrCode sc e =
     (let sc1 = sc\<lparr>scanning := False\<rparr> in
      case getParticipantInfo pr qrCode e of
        (Inl err, e1) \<Rightarrow> (Inl err, sc1, e1)
      | (Inr None, e1) \<Rightarrow>
          (Inr (),
           snd (setTimeout NotFoundCooldown 3000
             (playSound ErrorSound
               (sc1\<lparr>error := Some (js ''Invalid QR code. Participant not found.'')\<rparr>))),
           e1)
      | (Inr (Some participant), e1) \<Rightarrow>
          (let sc2 = sc1\<lparr>scannedParticipant := Some participant\<rparr> in
           case prop_scanType pr of
             Departure \<Rightarrow>
               (case prop_getParticipantCurrentActivity pr (p_id participant) e1 of
                  (Inl err, e2) \<Rightarrow> (Inl err, sc2, e2)
                | (Inr participantActivity, e2) \<Rightarrow>
                    (let sc3 = sc2\<lparr>currentActivity := participantActivity\<rparr> in
                     if sameActivity participantActivity (prop_selectedActivity pr)
                     then (Inr (),
                           snd (setTimeout DuplicateCooldown 3000
                             (playSound ErrorSound
                               (sc3\<lparr>error := Some (p_name participant @ js '' is already at ''
                                   @ (case participantActivity of
                                        None \<Rightarrow> []
                                      | Some pa \<Rightarrow> a_name pa) @ js ''.'')\<rparr>))),
                           e2)
                     else (Inr (),
                           (playSound SuccessSound sc3)\<lparr>confirmModalOpen := True\<rparr>,
                           e2)))
           | Return \<Rightarrow>
               (case prop_getParticipantCurrentActivity pr (p_id participant) e1 of
                  (Inl err, e2) \<Rightarrow> (Inl err, sc2, e2)
                | (Inr None, e2) \<Rightarrow>
                    (Inr (),
                     snd (setTimeout EmptyReturnCooldown 3000
                       (playSound ErrorSound
                         (sc2\<lparr>error := Some (p_name participant @ js '' is already at camp.'')\<rparr>))),
                     e2)
                | (Inr (Some pa), e2) \<Rightarrow>
                    (Inr (),
                     (playSound SuccessSound (sc2\<lparr>currentActivity := Some pa\<rparr>))
                       \<lparr>confirmModalOpen := True\<rparr>,
                     e2))))"

text \<open>
  The component's \<^verbatim>\<open>handleScan\<close>, the decode callback of the camera reader. \<open>None\<close> is a
  decode event without text (\<^verbatim>\<open>data\<close> null or \<^verbatim>\<open>data.text\<close> missing).
\<close>

definition QrScanner_handleScan :: "props \<Rightarrow> jsstring option \<Rightarrow> scanner \<Rightarrow> env \<Rightarrow> scanner \<times> env" where
  "QrScanner_handleScan pr data sc e =
     (let sc0 = resetIdleTimer sc in
      case data of
        None \<Rightarrow> (sc0, e)
      | Some text \<Rightarrow>
          if text = [] \<or> \<not> scanning sc then (sc0, e)
          else (let qrCode = trim text in
                case QrScanner_handleScan_try pr qrCode sc0 e of
                  (Inr _, sc', e') \<Rightarrow> (sc', e')
                | (Inl err, sc', e') \<Rightarrow>
                    (snd (setTimeout ProcessingErrorCooldown 3000
                       (playSound ErrorSound
                         (sc'\<lparr>error := Some (js ''Error processing QR code.'')\<rparr>))),
                     e')))"

definition handleConfirm :: "props \<Rightarrow> scanner \<Rightarrow> env \<Rightarrow> scanner \<times> env" where
  "handleConfirm pr sc e =
     (case scannedParticipant sc of
        None \<Rightarrow> (sc, e)
      | Some participant \<Rightarrow>
          (let activityId =
                 (case prop_scanType pr of
                    Departure \<Rightarrow> (case prop_selectedActivity pr of
                                    None \<Rightarrow> None
                                  | Some a \<Rightarrow> truthy (a_id a))
                  | Return \<Rightarrow> None)
           in case onScan pr (p_id participant) activityId e of
                (Inr _, e') \<Rightarrow>
                  (snd (setTimeout PostConfirm 1000
                     (sc\<lparr>confirmModalOpen := False, scannedParticipant := None,
                         currentActivity := None\<rparr>)),
                   e')
              | (Inl err, e') \<Rightarrow>
                  (snd (setTimeout ConfirmErrorCooldown 3000
                     ((playSound ErrorSound
                        (sc\<lparr>error := Some (js ''Error updating participant activity.'')\<rparr>))
                      \<lparr>confirmModalOpen := False\<rparr>)),
                   e')))"

definition handleCancel :: "scanner \<Rightarrow> scanner" where
  "handleCancel sc =
     snd (setTimeout PostCancel 500
       (sc\<lparr>confirmModalOpen := False, scannedParticipant := None, currentActivity := None\<rparr>))"

text \<open>
  Everything that can happen to a mounted component: a decode callback, a camera error, the
  Reset Scanner button, the two buttons of the modal (closing the modal is Cancel), and a
  pending timer running.
\<close>

datatype event =
    Decode "jsstring option"
  | CameraError
  | ResetButton
  | Confirm
  | Cancel
  | TimerFires nat

definition step :: "props \<Rightarrow> event \<Rightarrow> scanner \<times> env \<Rightarrow> scanner \<times> env" where
  "step pr ev x =
     (case x of (sc, e) \<Rightarrow>
        (case ev of
           Decode data \<Rightarrow> QrScanner_handleScan pr data sc e
         | CameraError \<Rightarrow> (handleError sc, e)
         | ResetButton \<Rightarrow> (resetScanner sc, e)
         | Confirm \<Rightarrow> handleConfirm pr sc e
         | Cancel \<Rightarrow> (handleCancel sc, e)
         | TimerFires i \<Rightarrow> (fire i sc, e)))"

text \<open>
  The component's state after a sequence of events, each one handled with the props of the
  render it arrives in and against the page and store as they are at that moment.
\<close>

fun run :: "(props \<times> env \<times> event) list \<Rightarrow> scanner \<Rightarrow> scanner" where
  "run [] sc = sc"
| "run ((pr, e, ev) # es) sc = run es (fst (step pr ev (sc, e)))"

text \<open>
  The bookkeeping of timer handles: handles are positive, fresh and pairwise different, and
  a pending idle timer is the one whose handle the \<^verbatim>\<open>idleTimer\<close> ref holds.
\<close>

definition isIdle :: "timer \<Rightarrow> bool" where
  "isIdle t \<longleftrightarrow> t_cb t = IdleExpired"

definition timers_ok :: "scanner \<Rightarrow> bool" where
  "timers_ok s \<longleftrightarrow>
     0 < nextTimerId s \<and> distinct (map t_id (timers s))
     \<and> list_all (\<lambda>t. 0 < t_id t \<and> t_id t < nextTimerId s
                     \<and> (isIdle t \<longrightarrow> idleTimer s = Some (t_id t))) (timers s)"

subsection \<open>Observing the store\<close>

text \<open>The calls that write to the store, and the calls a handler added to the record.\<close>

definition isWrite :: "call \<Rightarrow> bool" where
  "isWrite c = (case c of CreateActivityLog _ \<Rightarrow> True
                | UpdateParticipantLocation _ _ _ \<Rightarrow> True
                | _ \<Rightarrow> False)"

definition newCalls :: "world \<Rightarrow> world \<Rightarrow> call list" where
  "newCalls w w' = drop (length (calls w)) (calls w')"

subsection \<open>A small event, for the concrete instances\<close>

definition ex_art :: Activity where
  "ex_art = \<lparr>a_id = js ''art'', a_name = js ''Art'', a_eventId = js ''ev1''\<rparr>"

definition ex_music :: Activity where
  "ex_music = \<lparr>a_id = js ''music'', a_name = js ''Music'', a_eventId = js ''ev1''\<rparr>"

definition ex_pat :: Participant where
  "ex_pat = \<lparr>p_id = js ''p1'', p_name = js ''Pat'', p_qrCode = js ''QR-p1'',
     p_currentActivityId = Some (js ''art'')\<rparr>"

definition ex_sam :: Participant where
  "ex_sam = \<lparr>p_id = js ''p2'', p_name = js ''Sam'', p_qrCode = js ''QR-p2'',
     p_currentActivityId = None\<rparr>"

definition ex_world :: world where
  "ex_world = \<lparr>st_activities = [ex_art, ex_music], st_participants = [ex_pat, ex_sam],
     st_logs = [], rejects = (\<lambda>_. False), calls = [], alerts = [], console = []\<rparr>"

definition ex_page :: page where
  "ex_page = \<lparr>eventId = Some (js ''ev1''), user = Some \<lparr>u_id = js ''leader1''\<rparr>,
     activities = [ex_art, ex_music], selectedActivityId = js ''music'',
     scanType = Some Departure, loading = False, pageError = None, showModal = False,
     modalMessage = []\<rparr>"

definition ex_page_return :: page where
  "ex_page_return = ex_page\<lparr>selectedActivityId := [], scanType := Some Return\<rparr>"

text \<open>The props the example page passes, and the example store with one write refused.\<close>

definition ex_props :: props where
  "ex_props =
     \<lparr>prop_selectedActivity = Some ex_music,
      prop_scanType = Departure,
      onScan = (\<lambda>participantId activityId e.
         case validateAndHandleScan participantId activityId e of
           (b, e') \<Rightarrow> (Inr b, e')),
      getParticipantInfo = (\<lambda>qrCode e. case e of (pg', w) \<Rightarrow>
         (case getParticipantByQrCode qrCode (eventId pg') w of
            (r, w') \<Rightarrow> (r, (pg', w')))),
      prop_getParticipantCurrentActivity = getCurrentActivity\<rparr>"

definition isCreate :: "call \<Rightarrow> bool" where
  "isCreate c = (case c of CreateActivityLog _ \<Rightarrow> True | _ \<Rightarrow> False)"

definition isUpdate :: "call \<Rightarrow> bool" where
  "isUpdate c = (case c of UpdateParticipantLocation _ _ _ \<Rightarrow> True | _ \<Rightarrow> False)"

text \<open>
  The component after Sam's badge was decoded on the example page: the modal asks whether to
  register Sam for Music.
\<close>

definition ex_awaiting :: scanner where
  "ex_awaiting =
     \<lparr>scanning = False, scannerKey = 0, error = None, confirmModalOpen = True,
      scannedParticipant = Some ex_sam, currentActivity = None, idleTimer = Some 1,
      timers = [\<lparr>t_id = 1, t_due = 60000, t_cb = IdleExpired\<rparr>],
      nextTimerId = 2, now = 0, sounds = [SuccessSound]\<rparr>"


text \<open>The example page with Art selected, and the example store refusing one kind of write.\<close>

definition ex_page_art :: page where
  "ex_page_art = ex_page\<lparr>selectedActivityId := js ''art''\<rparr>"

definition ex_world_log_refused :: world where
  "ex_world_log_refused = ex_world\<lparr>rejects := isCreate\<rparr>"

definition ex_world_update_refused :: world where
  "ex_world_update_refused = ex_world\<lparr>rejects := isUpdate\<rparr>"

section \<open>Properties\<close>

subsection \<open>Auxiliary facts\<close>

lemmas ex_defs = ex_art_def ex_music_def ex_pat_def ex_sam_def ex_world_def ex_page_def
  ex_page_return_def js_def

lemmas io_defs = io_bind_def io_return_def received_def alert_def console_error_def
  getParticipantCurrentActivity_def createActivityLog_def updateParticipantLocation_def

lemmas page_defs = handleScan_def handleScan_try_def departureBlock_def departureLog_def
  returnBlock_def truthyOpt_def leaderIdOf_def truthy_def

lemmas eval_defs = page_defs io_defs ex_defs currentActivityOf_def locationOf_def setLocation_def
  newCalls_def isWrite_def Let_def

lemma find_map_setLocation:
  "map_option p_currentActivityId (find (\<lambda>p. p_id p = pid) (map (setLocation pid aid) ps))
     = map_option (\<lambda>_. aid) (find (\<lambda>p. p_id p = pid) ps)"
  by (induction ps) (auto simp: setLocation_def)

lemma currentActivityOf_id:
  "currentActivityOf w pid = Some ca \<Longrightarrow> locationOf w pid = Some (Some (a_id ca))"
  by (auto simp: currentActivityOf_def locationOf_def find_Some_iff split: option.splits)

lemma fetched_Some:
  "fst (getParticipantCurrentActivity pid w) = Inr r \<Longrightarrow>
     \<not> rejects w (GetParticipantCurrentActivity pid) \<and> currentActivityOf w pid = r"
  by (auto simp: getParticipantCurrentActivity_def Let_def split: if_splits)

subsection \<open>Auxiliary facts: trimming and timers\<close>

lemma trim_surrounding:
  assumes "\<forall>c\<in>set pre. is_ws c" "\<forall>c\<in>set post. is_ws c"
  shows "trim (pre @ t @ post) = trim t"
proof (cases "\<forall>c\<in>set t. is_ws c")
  case True
  with assms have 1: "dropWhile is_ws (pre @ t @ post) = []"
    by (simp add: dropWhile_eq_Nil_conv ball_Un)
  from True have 2: "dropWhile is_ws t = []"
    by (simp add: dropWhile_eq_Nil_conv)
  show ?thesis by (simp add: trim_def 1 2)
next
  case False
  have "dropWhile is_ws (pre @ t @ post) = dropWhile is_ws (t @ post)"
    using assms(1) by (simp add: dropWhile_append2)
  also have "\<dots> = dropWhile is_ws t @ post"
    using False by (auto simp: dropWhile_append1)
  finally have "rev (dropWhile is_ws (pre @ t @ post)) = rev post @ rev (dropWhile is_ws t)"
    by simp
  moreover have "dropWhile is_ws (rev post @ rev (dropWhile is_ws t))
      = dropWhile is_ws (rev (dropWhile is_ws t))"
    using assms(2) by (intro dropWhile_append2) simp
  ultimately show ?thesis unfolding trim_def by simp
qed

lemma timers_ok_init: "timers_ok initScanner"
  by (simp add: timers_ok_def initScanner_def)

lemma timers_ok_setTimeout:
  "timers_ok s \<Longrightarrow> cb \<noteq> IdleExpired \<Longrightarrow> timers_ok (snd (setTimeout cb ms s))"
  by (auto simp: timers_ok_def setTimeout_def isIdle_def list_all_iff)

lemma timers_ok_clearIdleTimer:
  "timers_ok s \<Longrightarrow> timers_ok (clearIdleTimer s) \<and> list_all (\<lambda>t. \<not> isIdle t) (timers (clearIdleTimer s))
     \<and> nextTimerId (clearIdleTimer s) = nextTimerId s"
  by (auto simp: timers_ok_def clearIdleTimer_def clearTimeout_def list_all_iff distinct_map_filter
      split: option.splits)

lemma timers_ok_resetIdleTimer: "timers_ok s \<Longrightarrow> timers_ok (resetIdleTimer s)"
  using timers_ok_clearIdleTimer[of s]
  by (auto simp: timers_ok_def resetIdleTimer_def setTimeout_def list_all_iff)

lemma timers_ok_resetScanner: "timers_ok s \<Longrightarrow> timers_ok (resetScanner s)"
  using timers_ok_clearIdleTimer[of s]
  by (auto simp: timers_ok_def resetScanner_def setTimeout_def list_all_iff isIdle_def Let_def)

lemma timers_ok_upds:
  "timers_ok (s\<lparr>scanning := b\<rparr>) = timers_ok s"
  "timers_ok (s\<lparr>scannerKey := k\<rparr>) = timers_ok s"
  "timers_ok (s\<lparr>error := m\<rparr>) = timers_ok s"
  "timers_ok (s\<lparr>confirmModalOpen := b\<rparr>) = timers_ok s"
  "timers_ok (s\<lparr>scannedParticipant := p\<rparr>) = timers_ok s"
  "timers_ok (s\<lparr>currentActivity := a\<rparr>) = timers_ok s"
  "timers_ok (s\<lparr>now := n\<rparr>) = timers_ok s"
  "timers_ok (s\<lparr>sounds := snds\<rparr>) = timers_ok s"
  "timers_ok (playSound x s) = timers_ok s"
  by (simp_all add: timers_ok_def playSound_def)

lemma timers_ok_runCallback: "timers_ok s \<Longrightarrow> timers_ok (runCallback cb s)"
  by (cases cb) (simp_all add: timers_ok_upds timers_ok_resetScanner timers_ok_resetIdleTimer)

lemma timers_ok_remove:
  "timers_ok s \<Longrightarrow> timers_ok (s\<lparr>timers := filter (\<lambda>t. t_id t \<noteq> i) (timers s)\<rparr>)"
  by (auto simp: timers_ok_def list_all_iff distinct_map_filter)

lemma timers_ok_fire: "timers_ok s \<Longrightarrow> timers_ok (fire i s)"
  by (auto simp: fire_def timers_ok_upds intro!: timers_ok_runCallback timers_ok_remove
      split: option.splits)

lemma timers_ok_handleError: "timers_ok s \<Longrightarrow> timers_ok (handleError s)"
  by (simp add: handleError_def timers_ok_resetScanner timers_ok_upds)

lemma timers_ok_handleCancel: "timers_ok s \<Longrightarrow> timers_ok (handleCancel s)"
  by (simp add: handleCancel_def timers_ok_setTimeout timers_ok_upds)

lemma timers_ok_handleConfirm: "timers_ok s \<Longrightarrow> timers_ok (fst (handleConfirm pr s e))"
  by (simp add: handleConfirm_def Let_def timers_ok_setTimeout timers_ok_upds
      split: option.splits prod.splits sum.splits)

lemma timers_ok_handleScan_try:
  "timers_ok s \<Longrightarrow> timers_ok (fst (snd (QrScanner_handleScan_try pr q s e)))"
  by (simp add: QrScanner_handleScan_try_def Let_def timers_ok_setTimeout timers_ok_upds
      split: option.splits prod.splits sum.splits ScanType.splits)

lemma timers_ok_handleScan: "timers_ok s \<Longrightarrow> timers_ok (fst (QrScanner_handleScan pr d s e))"
proof -
  assume ok: "timers_ok s"
  then have ok0: "timers_ok (resetIdleTimer s)" by (rule timers_ok_resetIdleTimer)
  have t: "timers_ok (fst (snd (QrScanner_handleScan_try pr q (resetIdleTimer s) e)))" for q
    using ok0 by (rule timers_ok_handleScan_try)
  show ?thesis
  proof (cases d)
    case None
    with ok0 show ?thesis by (simp add: QrScanner_handleScan_def)
  next
    case (Some tx)
    show ?thesis
    proof -
      obtain r sc' e' where
        f: "QrScanner_handleScan_try pr (trim tx) (resetIdleTimer s) e = (r, sc', e')"
        by (cases "QrScanner_handleScan_try pr (trim tx) (resetIdleTimer s) e") auto
      with t[of "trim tx"] have "timers_ok sc'" by simp
      with ok0 Some f show ?thesis
        by (simp add: QrScanner_handleScan_def Let_def timers_ok_setTimeout timers_ok_upds
            split: sum.splits)
    qed
  qed
qed

lemma timers_ok_step: "timers_ok s \<Longrightarrow> timers_ok (fst (step pr ev (s, e)))"
  by (cases ev) (simp_all add: step_def timers_ok_handleScan timers_ok_handleError
      timers_ok_resetScanner timers_ok_handleConfirm timers_ok_handleCancel timers_ok_fire)

lemma timers_ok_run: "timers_ok s \<Longrightarrow> timers_ok (run es s)"
  by (induction es s rule: run.induct) (simp_all add: timers_ok_step)

lemma one_idle:
  "distinct (map t_id xs) \<Longrightarrow> list_all (\<lambda>t. isIdle t \<longrightarrow> t_id t = c) xs \<Longrightarrow>
   length (filter isIdle xs) \<le> 1"
proof (induction xs)
  case Nil
  show ?case by simp
next
  case (Cons x xs)
  show ?case
  proof (cases "isIdle x")
    case False
    with Cons show ?thesis by simp
  next
    case True
    with Cons.prems have c: "t_id x = c" "c \<notin> t_id ` set xs" by auto
    have "\<not> isIdle y" if "y \<in> set xs" for y
    proof
      assume "isIdle y"
      with Cons.prems(2) that have "t_id y = c" by (simp add: list_all_iff)
      with that c(2) show False by force
    qed
    then have "filter isIdle xs = []"
      by (simp add: filter_empty_conv)
    then show ?thesis by simp
  qed
qed

lemma scanning_resetScanner: "scanning (resetScanner s) = False"
  by (simp add: resetScanner_def setTimeout_def Let_def)

lemma fields_clearIdleTimer:
  "scanning (clearIdleTimer s) = scanning s" "error (clearIdleTimer s) = error s"
  "now (clearIdleTimer s) = now s" "nextTimerId (clearIdleTimer s) = nextTimerId s"
  "scannedParticipant (clearIdleTimer s) = scannedParticipant s"
  "confirmModalOpen (clearIdleTimer s) = confirmModalOpen s"
  by (simp_all add: clearIdleTimer_def clearTimeout_def split: option.splits)

lemma fields_resetIdleTimer:
  "scanning (resetIdleTimer s) = scanning s" "error (resetIdleTimer s) = error s"
  "now (resetIdleTimer s) = now s" "nextTimerId (resetIdleTimer s) = Suc (nextTimerId s)"
  "scannedParticipant (resetIdleTimer s) = scannedParticipant s"
  "confirmModalOpen (resetIdleTimer s) = confirmModalOpen s"
  by (simp_all add: resetIdleTimer_def setTimeout_def fields_clearIdleTimer)

lemma fields_resetScanner:
  "error (resetScanner s) = error s"
  "now (resetScanner s) = now s" "nextTimerId (resetScanner s) = Suc (nextTimerId s)"
  "scannedParticipant (resetScanner s) = scannedParticipant s"
  "confirmModalOpen (resetScanner s) = confirmModalOpen s"
  by (simp_all add: resetScanner_def setTimeout_def fields_clearIdleTimer Let_def)

lemma fire_new:
  assumes "timers_ok s"
  shows "fire (nextTimerId s) (snd (setTimeout cb ms s))
       = runCallback cb (s\<lparr>nextTimerId := Suc (nextTimerId s), now := now s + ms\<rparr>)"
proof -
  from assms have lt: "\<forall>t\<in>set (timers s). t_id t \<noteq> nextTimerId s"
    by (auto simp: timers_ok_def list_all_iff)
  then have 1: "find (\<lambda>t. t_id t = nextTimerId s) (timers s) = None"
    by (simp add: find_None_iff)
  from lt have 2: "filter (\<lambda>t. t_id t \<noteq> nextTimerId s) (timers s) = timers s"
    by (simp add: filter_id_conv)
  have 3: "find P (xs @ ys) = (case find P xs of None \<Rightarrow> find P ys | Some x \<Rightarrow> Some x)"
    for P and xs ys :: "timer list"
    by (induction xs) auto
  show ?thesis
    by (simp add: fire_def setTimeout_def 1 2 3)
qed

lemma resetScanner_rearm:
  assumes "timers_ok s"
  shows "fire (nextTimerId s) (resetScanner s) = runCallback Rearm
     ((clearIdleTimer s)\<lparr>scanning := False, scannerKey := Suc (scannerKey (clearIdleTimer s)),
        nextTimerId := Suc (nextTimerId s), now := now s + 500\<rparr>)"
proof -
  let ?s2 = "(clearIdleTimer s)\<lparr>scanning := False, scannerKey := Suc (scannerKey (clearIdleTimer s))\<rparr>"
  have ok: "timers_ok ?s2" using timers_ok_clearIdleTimer[OF assms] by (simp add: timers_ok_upds)
  have n: "nextTimerId ?s2 = nextTimerId s" "now ?s2 = now s" by (simp_all add: fields_clearIdleTimer)
  have "resetScanner s = snd (setTimeout Rearm 500 ?s2)" by (simp add: resetScanner_def Let_def)
  then show ?thesis
    using fire_new[OF ok, of Rearm 500] unfolding n by simp
qed

lemma rearm_after_reset:
  assumes "timers_ok s"
  shows "scanning (fire (nextTimerId s) (resetScanner s))"
    and "now (fire (nextTimerId s) (resetScanner s)) = now s + 500"
    and "error (fire (nextTimerId s) (resetScanner s)) = error s"
  by (simp_all add: resetScanner_rearm[OF assms] fields_resetIdleTimer fields_clearIdleTimer)

lemma timers_ok_bump: "timers_ok s \<Longrightarrow> timers_ok (s\<lparr>nextTimerId := Suc (nextTimerId s)\<rparr>)"
  by (auto simp: timers_ok_def list_all_iff)

lemma rearm_pending:
  "\<lparr>t_id = nextTimerId s, t_due = now s + 500, t_cb = Rearm\<rparr> \<in> set (timers (resetScanner s))"
  by (simp add: resetScanner_def setTimeout_def Let_def fields_clearIdleTimer)

lemma new_pending:
  "\<lparr>t_id = nextTimerId s, t_due = now s + ms, t_cb = cb\<rparr> \<in> set (timers (snd (setTimeout cb ms s)))"
  by (simp add: setTimeout_def)

lemma reset_then_rearm:
  assumes "timers_ok s" "n = nextTimerId s"
  shows "\<not> scanning (resetScanner s) \<and> now (resetScanner s) = now s
       \<and> error (resetScanner s) = error s
       \<and> \<lparr>t_id = n, t_due = now s + 500, t_cb = Rearm\<rparr> \<in> set (timers (resetScanner s))
       \<and> scanning (fire n (resetScanner s))
       \<and> now (fire n (resetScanner s)) = now s + 500
       \<and> error (fire n (resetScanner s)) = error s"
  using rearm_after_reset[OF assms(1)] assms(2)
  by (simp add: scanning_resetScanner fields_resetScanner rearm_pending)

lemma cooldown_recovers:
  assumes ok: "timers_ok s" and cd: "cb \<noteq> IdleExpired" "cb \<noteq> Rearm" and n: "n = nextTimerId s"
  shows "\<lparr>t_id = n, t_due = now s + ms, t_cb = cb\<rparr> \<in> set (timers (snd (setTimeout cb ms s)))
       \<and> \<not> scanning (fire n (snd (setTimeout cb ms s)))
       \<and> now (fire n (snd (setTimeout cb ms s))) = now s + ms
       \<and> \<lparr>t_id = Suc n, t_due = now s + ms + 500, t_cb = Rearm\<rparr>
            \<in> set (timers (fire n (snd (setTimeout cb ms s))))
       \<and> scanning (fire (Suc n) (fire n (snd (setTimeout cb ms s))))
       \<and> now (fire (Suc n) (fire n (snd (setTimeout cb ms s)))) = now s + ms + 500
       \<and> (cb \<noteq> PostConfirm \<and> cb \<noteq> PostCancel \<longrightarrow>
            error (fire n (snd (setTimeout cb ms s))) = None
          \<and> error (fire (Suc n) (fire n (snd (setTimeout cb ms s)))) = None)"
proof -
  let ?s1 = "s\<lparr>nextTimerId := Suc (nextTimerId s), now := now s + ms\<rparr>"
  have f: "fire n (snd (setTimeout cb ms s)) = runCallback cb ?s1"
    unfolding n by (rule fire_new[OF ok])
  have ok1: "timers_ok ?s1" using timers_ok_bump[OF ok] by (simp add: timers_ok_upds)
  have r: "timers_ok x \<Longrightarrow> nextTimerId x = Suc n \<Longrightarrow> now x = now s + ms \<Longrightarrow>
       \<not> scanning (resetScanner x) \<and> now (resetScanner x) = now s + ms
       \<and> error (resetScanner x) = error x
       \<and> \<lparr>t_id = Suc n, t_due = now s + ms + 500, t_cb = Rearm\<rparr> \<in> set (timers (resetScanner x))
       \<and> scanning (fire (Suc n) (resetScanner x))
       \<and> now (fire (Suc n) (resetScanner x)) = now s + ms + 500
       \<and> error (fire (Suc n) (resetScanner x)) = error x" for x
    using reset_then_rearm[of x "Suc n"] by simp
  have p: "\<lparr>t_id = n, t_due = now s + ms, t_cb = cb\<rparr> \<in> set (timers (snd (setTimeout cb ms s)))"
    unfolding n by (rule new_pending)
  show ?thesis
  proof (cases cb)
    case NotFoundCooldown
    with r[of "?s1\<lparr>error := None\<rparr>"] ok1 n p f show ?thesis by (simp add: timers_ok_upds)
  next
    case DuplicateCooldown
    with r[of "?s1\<lparr>error := None, scannedParticipant := None, currentActivity := None\<rparr>"] ok1 n p f
    show ?thesis by (simp add: timers_ok_upds)
  next
    case EmptyReturnCooldown
    with r[of "?s1\<lparr>error := None, scannedParticipant := None\<rparr>"] ok1 n p f
    show ?thesis by (simp add: timers_ok_upds)
  next
    case ProcessingErrorCooldown
    with r[of "?s1\<lparr>error := None\<rparr>"] ok1 n p f show ?thesis by (simp add: timers_ok_upds)
  next
    case ConfirmErrorCooldown
    with r[of "?s1\<lparr>error := None\<rparr>"] ok1 n p f show ?thesis by (simp add: timers_ok_upds)
  next
    case PostConfirm
    with r[of ?s1] ok1 n p f show ?thesis by (simp add: timers_ok_upds)
  next
    case PostCancel
    with r[of ?s1] ok1 n p f show ?thesis by (simp add: timers_ok_upds)
  qed (use cd in simp_all)
qed

lemma cancel_funpow: "(step pr Cancel ^^ n) (sc, e) = ((handleCancel ^^ n) sc, e)"
  by (induction n) (simp_all add: step_def)


subsection \<open>Auxiliary facts: the example\<close>

lemma trim_ex: "trim (js '' QR-p2 '') = js ''QR-p2''"
  by (simp add: trim_def is_ws_def js_def)

lemmas trim_ex_num = trim_ex[unfolded js_def, simplified]

lemma ex_awaiting_reached:
  "QrScanner_handleScan ex_props (Some (js '' QR-p2 '')) initScanner (ex_page, ex_world)
    = (ex_awaiting, (ex_page, ex_world\<lparr>calls := [GetParticipantByQrCode (js ''QR-p2'') (Some (js ''ev1'')),
        GetParticipantCurrentActivity (js ''p2'')]\<rparr>))"
  by (simp add: QrScanner_handleScan_def QrScanner_handleScan_try_def ex_props_def ex_awaiting_def
      initScanner_def resetIdleTimer_def clearIdleTimer_def setTimeout_def IDLE_TIMEOUT_def
      trim_ex_num getParticipantByQrCode_def getCurrentActivity_def sameActivity_def
      playSound_def eval_defs)



subsection \<open>Auxiliary facts: what the page passes to the component\<close>

lemma scannerProps_fields:
  assumes "scannerProps pg = Some pr"
  shows "prop_selectedActivity pr = find (\<lambda>a. a_id a = selectedActivityId pg) (activities pg)"
    and "scanType pg = Some (prop_scanType pr)"
    and "getParticipantInfo pr = (\<lambda>qrCode e. case e of (pg', w) \<Rightarrow>
                      (case getParticipantByQrCode qrCode (eventId pg') w of
                         (r, w') \<Rightarrow> (r, (pg', w'))))"
    and "prop_getParticipantCurrentActivity pr = getCurrentActivity"
    and "onScan pr = (\<lambda>participantId activityId e.
                      case validateAndHandleScan participantId activityId e of
                        (b, e') \<Rightarrow> (Inr b, e'))"
  using assms by (auto simp: scannerProps_def split: if_splits option.splits)

lemma currentActivityOf_calls [simp]:
  "currentActivityOf (w\<lparr>calls := x\<rparr>) pid = currentActivityOf w pid"
  "currentActivityOf (w\<lparr>console := y\<rparr>) pid = currentActivityOf w pid"
  by (simp_all add: currentActivityOf_def cong: option.case_cong)

lemma looked_up:
  "fst (getParticipantByQrCode q ev w) = Inr r \<Longrightarrow>
     getParticipantByQrCode q ev w = (Inr r, w\<lparr>calls := calls w @ [GetParticipantByQrCode q ev]\<rparr>)"
  by (auto simp: getParticipantByQrCode_def received_def Let_def split: if_splits)

lemma fetched:
  "fst (getParticipantCurrentActivity pid w) = Inr r \<Longrightarrow>
     getCurrentActivity pid (pg, w\<lparr>calls := cs\<rparr>)
       = (Inr r, (pg, w\<lparr>calls := cs @ [GetParticipantCurrentActivity pid]\<rparr>))"
  by (auto simp: getCurrentActivity_def getParticipantCurrentActivity_def received_def Let_def
      split: if_splits)

lemma ex_props_rendered: "scannerProps ex_page = Some ex_props"
  by (simp add: scannerProps_def ex_props_def ex_page_def truthyOpt_def ex_art_def ex_music_def js_def)

lemma ex_props_art_rendered:
  "scannerProps ex_page_art = Some (ex_props\<lparr>prop_selectedActivity := Some ex_art\<rparr>)"
  by (simp add: scannerProps_def ex_props_def ex_page_art_def ex_page_def truthyOpt_def
      ex_art_def ex_music_def js_def)

lemma trim_ex1: "trim (js '' QR-p1 '') = js ''QR-p1''"
  by (simp add: trim_def is_ws_def js_def)

lemmas trim_ex1_num = trim_ex1[unfolded js_def, simplified]

subsection \<open>The scan commit\<close>

text \<open>
  C1. The page is set to departures, the event and the leader are known, and the store
  accepts the two writes. If the current activity fetched at commit time is \<open>ca\<close> and the
  target \<open>B\<close> is another activity, then \<^verbatim>\<open>handleScan\<close> reports success, and what it did to the
  store is exactly: fetch the current activity, append the one log
  \<open>\<lparr>type = change, fromActivityId = a_id ca, activityId = B\<rparr>\<close>, then set the participant's
  \<^verbatim>\<open>currentActivityId\<close> to \<open>B\<close>, in this order.
\<close>

theorem departure_change_commit:
  assumes "eventId pg = Some ev" "ev \<noteq> []" "user pg = Some usr" "u_id usr \<noteq> []"
    and "scanType pg = Some Departure"
    and "fst (getParticipantCurrentActivity pid w) = Inr (Some ca)" "a_id ca \<noteq> B"
    and "L = \<lparr>log_eventId = ev, log_participantId = pid, log_activityId = Some B,
              log_fromActivityId = Some (a_id ca), log_leaderId = u_id usr, log_type = change\<rparr>"
    and "\<not> rejects w (CreateActivityLog L)"
        "\<not> rejects w (UpdateParticipantLocation ev pid (Some B))"
  shows "handleScan pg pid (Some B) w =
      (True, w\<lparr>calls := calls w @ [GetParticipantCurrentActivity pid, CreateActivityLog L,
                   UpdateParticipantLocation ev pid (Some B)],
               st_logs := st_logs w @ [L],
               st_participants := map (setLocation pid (Some B)) (st_participants w)\<rparr>)
   \<and> locationOf (snd (handleScan pg pid (Some B) w)) pid = Some (Some B)"
proof -
  from fetched_Some[OF assms(6)] have nr: "\<not> rejects w (GetParticipantCurrentActivity pid)"
    and cur: "currentActivityOf w pid = Some ca"
    by simp_all
  have hs: "handleScan pg pid (Some B) w =
      (True, w\<lparr>calls := calls w @ [GetParticipantCurrentActivity pid, CreateActivityLog L,
                   UpdateParticipantLocation ev pid (Some B)],
               st_logs := st_logs w @ [L],
               st_participants := map (setLocation pid (Some B)) (st_participants w)\<rparr>)"
    using assms(1-5,7-) nr cur by (simp add: page_defs io_defs)
  from currentActivityOf_id[OF cur] have "locationOf w pid = Some (Some (a_id ca))" .
  then have "locationOf (snd (handleScan pg pid (Some B) w)) pid = Some (Some B)"
    unfolding hs by (auto simp: locationOf_def find_map_setLocation)
  with hs show ?thesis by simp
qed

theorem departure_change_commit_witness:
  "fst (getParticipantCurrentActivity (js ''p1'') ex_world) = Inr (Some ex_art)
   \<and> a_id ex_art \<noteq> js ''music''
   \<and> fst (handleScan ex_page (js ''p1'') (Some (js ''music'')) ex_world) = True
   \<and> st_logs (snd (handleScan ex_page (js ''p1'') (Some (js ''music'')) ex_world)) =
       [\<lparr>log_eventId = js ''ev1'', log_participantId = js ''p1'',
         log_activityId = Some (js ''music''), log_fromActivityId = Some (js ''art''),
         log_leaderId = js ''leader1'', log_type = change\<rparr>]
   \<and> locationOf (snd (handleScan ex_page (js ''p1'') (Some (js ''music'')) ex_world)) (js ''p1'')
       = Some (Some (js ''music''))"
  using departure_change_commit[of ex_page "js ''ev1''" "\<lparr>u_id = js ''leader1''\<rparr>" "js ''p1''"
      ex_world ex_art "js ''music''"
      "\<lparr>log_eventId = js ''ev1'', log_participantId = js ''p1'',
         log_activityId = Some (js ''music''), log_fromActivityId = Some (js ''art''),
         log_leaderId = js ''leader1'', log_type = change\<rparr>"]
  by (simp add: ex_defs getParticipantCurrentActivity_def currentActivityOf_def locationOf_def
      setLocation_def)

text \<open>
  C2. The page is set to returns. If the current activity fetched at commit time is none,
  \<^verbatim>\<open>handleScan\<close> reports failure, the logs and the participants are unchanged and no write
  reached the store. If it is \<open>ca\<close> (and the event and the leader are known and the store
  accepts the two writes), what happened to the store is exactly: the fetch, the append of
  the one log \<open>\<lparr>type = return, activityId = a_id ca\<rparr>\<close> without \<^verbatim>\<open>fromActivityId\<close>, then the
  clearing of the participant's \<^verbatim>\<open>currentActivityId\<close>.
\<close>

theorem return_commit:
  assumes "scanType pg = Some Return"
  shows "(fst (getParticipantCurrentActivity pid w) = Inr None \<longrightarrow>
            fst (handleScan pg pid aid w) = False
          \<and> st_logs (snd (handleScan pg pid aid w)) = st_logs w
          \<and> st_participants (snd (handleScan pg pid aid w)) = st_participants w
          \<and> filter isWrite (newCalls w (snd (handleScan pg pid aid w))) = [])
       \<and> (eventId pg = Some ev \<and> ev \<noteq> [] \<and> user pg = Some usr \<and> u_id usr \<noteq> []
          \<and> fst (getParticipantCurrentActivity pid w) = Inr (Some ca)
          \<and> L = \<lparr>log_eventId = ev, log_participantId = pid, log_activityId = Some (a_id ca),
                  log_fromActivityId = None, log_leaderId = u_id usr, log_type = return\<rparr>
          \<and> \<not> rejects w (CreateActivityLog L)
          \<and> \<not> rejects w (UpdateParticipantLocation ev pid None)
          \<longrightarrow> handleScan pg pid aid w =
               (True, w\<lparr>calls := calls w @ [GetParticipantCurrentActivity pid, CreateActivityLog L,
                   UpdateParticipantLocation ev pid None],
                 st_logs := st_logs w @ [L],
                 st_participants := map (setLocation pid None) (st_participants w)\<rparr>)
             \<and> locationOf (snd (handleScan pg pid aid w)) pid = Some None)"
proof (intro conjI impI)
  assume f: "fst (getParticipantCurrentActivity pid w) = Inr None"
  from fetched_Some[OF f] have nr: "\<not> rejects w (GetParticipantCurrentActivity pid)"
    and cur: "currentActivityOf w pid = None"
    by simp_all
  show "fst (handleScan pg pid aid w) = False"
    using assms nr cur by (simp add: page_defs io_defs split: option.splits)
  show "st_logs (snd (handleScan pg pid aid w)) = st_logs w"
    using assms nr cur by (simp add: page_defs io_defs split: option.splits)
  show "st_participants (snd (handleScan pg pid aid w)) = st_participants w"
    using assms nr cur by (simp add: page_defs io_defs split: option.splits)
  show "filter isWrite (newCalls w (snd (handleScan pg pid aid w))) = []"
    using assms nr cur
    by (simp add: page_defs io_defs newCalls_def isWrite_def split: option.splits)
next
  assume h: "eventId pg = Some ev \<and> ev \<noteq> [] \<and> user pg = Some usr \<and> u_id usr \<noteq> []
          \<and> fst (getParticipantCurrentActivity pid w) = Inr (Some ca)
          \<and> L = \<lparr>log_eventId = ev, log_participantId = pid, log_activityId = Some (a_id ca),
                  log_fromActivityId = None, log_leaderId = u_id usr, log_type = return\<rparr>
          \<and> \<not> rejects w (CreateActivityLog L)
          \<and> \<not> rejects w (UpdateParticipantLocation ev pid None)"
  then have f: "fst (getParticipantCurrentActivity pid w) = Inr (Some ca)"
    by simp
  from fetched_Some[OF f] have nr: "\<not> rejects w (GetParticipantCurrentActivity pid)"
    and cur: "currentActivityOf w pid = Some ca"
    by simp_all
  show hs: "handleScan pg pid aid w =
               (True, w\<lparr>calls := calls w @ [GetParticipantCurrentActivity pid, CreateActivityLog L,
                   UpdateParticipantLocation ev pid None],
                 st_logs := st_logs w @ [L],
                 st_participants := map (setLocation pid None) (st_participants w)\<rparr>)"
    using assms h nr cur by (clarsimp simp: page_defs io_defs Let_def)
  from currentActivityOf_id[OF cur]
  show "locationOf (snd (handleScan pg pid aid w)) pid = Some None"
    unfolding hs by (auto simp: locationOf_def find_map_setLocation)
qed

theorem return_commit_witness:
  "scanType ex_page_return = Some Return
   \<and> fst (getParticipantCurrentActivity (js ''p2'') ex_world) = Inr None
   \<and> fst (handleScan ex_page_return (js ''p2'') None ex_world) = False
   \<and> st_logs (snd (handleScan ex_page_return (js ''p2'') None ex_world)) = []
   \<and> fst (getParticipantCurrentActivity (js ''p1'') ex_world) = Inr (Some ex_art)
   \<and> st_logs (snd (handleScan ex_page_return (js ''p1'') None ex_world)) =
        [\<lparr>log_eventId = js ''ev1'', log_participantId = js ''p1'',
          log_activityId = Some (js ''art''), log_fromActivityId = None,
          log_leaderId = js ''leader1'', log_type = return\<rparr>]
   \<and> locationOf (snd (handleScan ex_page_return (js ''p1'') None ex_world)) (js ''p1'')
        = Some None"
  using return_commit[of ex_page_return "js ''p2''" ex_world None]
        return_commit[of ex_page_return "js ''p1''" ex_world None "js ''ev1''"
          "\<lparr>u_id = js ''leader1''\<rparr>" ex_art
          "\<lparr>log_eventId = js ''ev1'', log_participantId = js ''p1'',
            log_activityId = Some (js ''art''), log_fromActivityId = None,
            log_leaderId = js ''leader1'', log_type = return\<rparr>"]
  by (simp add: ex_defs getParticipantCurrentActivity_def currentActivityOf_def locationOf_def
      setLocation_def)

text \<open>
  C3. The page is set to departures, the event and the leader are known, and the store
  accepts the two writes. If the current activity fetched at commit time is none, then
  \<^verbatim>\<open>handleScan\<close> reports success, and what it did to the store is exactly: the fetch, the
  append of the one log \<open>\<lparr>type = departure, activityId = B\<rparr>\<close> without \<^verbatim>\<open>fromActivityId\<close>,
  then the setting of \<^verbatim>\<open>currentActivityId\<close> to \<open>B\<close> on the participant's record.
\<close>

theorem departure_unassigned_commit:
  assumes "eventId pg = Some ev" "ev \<noteq> []" "user pg = Some usr" "u_id usr \<noteq> []"
    and "scanType pg = Some Departure"
    and "fst (getParticipantCurrentActivity pid w) = Inr None"
    and "L = \<lparr>log_eventId = ev, log_participantId = pid, log_activityId = Some B,
              log_fromActivityId = None, log_leaderId = u_id usr, log_type = departure\<rparr>"
    and "\<not> rejects w (CreateActivityLog L)"
        "\<not> rejects w (UpdateParticipantLocation ev pid (Some B))"
  shows "handleScan pg pid (Some B) w =
      (True, w\<lparr>calls := calls w @ [GetParticipantCurrentActivity pid, CreateActivityLog L,
                   UpdateParticipantLocation ev pid (Some B)],
               st_logs := st_logs w @ [L],
               st_participants := map (setLocation pid (Some B)) (st_participants w)\<rparr>)
   \<and> locationOf (snd (handleScan pg pid (Some B) w)) pid
        = map_option (\<lambda>_. Some B) (locationOf w pid)"
proof -
  from fetched_Some[OF assms(6)] have nr: "\<not> rejects w (GetParticipantCurrentActivity pid)"
    and cur: "currentActivityOf w pid = None"
    by simp_all
  have hs: "handleScan pg pid (Some B) w =
      (True, w\<lparr>calls := calls w @ [GetParticipantCurrentActivity pid, CreateActivityLog L,
                   UpdateParticipantLocation ev pid (Some B)],
               st_logs := st_logs w @ [L],
               st_participants := map (setLocation pid (Some B)) (st_participants w)\<rparr>)"
    using assms(1-5,7-) nr cur by (simp add: page_defs io_defs)
  show ?thesis
    unfolding hs by (simp add: locationOf_def find_map_setLocation option.map_comp comp_def)
qed

theorem departure_unassigned_commit_witness:
  "fst (getParticipantCurrentActivity (js ''p2'') ex_world) = Inr None
   \<and> fst (handleScan ex_page (js ''p2'') (Some (js ''music'')) ex_world) = True
   \<and> st_logs (snd (handleScan ex_page (js ''p2'') (Some (js ''music'')) ex_world)) =
       [\<lparr>log_eventId = js ''ev1'', log_participantId = js ''p2'',
         log_activityId = Some (js ''music''), log_fromActivityId = None,
         log_leaderId = js ''leader1'', log_type = departure\<rparr>]
   \<and> locationOf (snd (handleScan ex_page (js ''p2'') (Some (js ''music'')) ex_world)) (js ''p2'')
       = Some (Some (js ''music''))"
  using departure_unassigned_commit[of ex_page "js ''ev1''" "\<lparr>u_id = js ''leader1''\<rparr>"
      "js ''p2''" ex_world
      "\<lparr>log_eventId = js ''ev1'', log_participantId = js ''p2'',
         log_activityId = Some (js ''music''), log_fromActivityId = None,
         log_leaderId = js ''leader1'', log_type = departure\<rparr>" "js ''music''"]
  by (simp add: ex_defs getParticipantCurrentActivity_def currentActivityOf_def locationOf_def
      setLocation_def)

text \<open>
  C6. Whatever the page state, the arguments and the store, \<^verbatim>\<open>handleScan\<close> appends at most
  one log. When the log it appends is a \<open>change\<close>, the fetch made inside this very call
  returned an activity \<open>ca\<close>, the stored \<^verbatim>\<open>currentActivityId\<close> of the participant is
  \<open>a_id ca\<close> (so it is not null), it differs from the target, and the log carries it as
  \<^verbatim>\<open>fromActivityId\<close> and the target as \<^verbatim>\<open>activityId\<close>. When a guard fails on the store as
  it is at commit time (departure to the activity the participant is at, return of a
  participant who is nowhere), the logs and the participants are unchanged. The activity
  the component fetched at scan time and shows in the modal plays no part: what Confirm does
  to the page and the store is the same whatever \<^verbatim>\<open>currentActivity\<close> the component holds.
\<close>

theorem change_log_valid:
  "(st_logs (snd (handleScan pg pid aid w)) = st_logs w
      \<or> (\<exists>l. st_logs (snd (handleScan pg pid aid w)) = st_logs w @ [l]))
   \<and> (\<forall>l. st_logs (snd (handleScan pg pid aid w)) = st_logs w @ [l] \<and> log_type l = change \<longrightarrow>
        (\<exists>ca. fst (getParticipantCurrentActivity pid w) = Inr (Some ca)
            \<and> locationOf w pid = Some (Some (a_id ca))
            \<and> Some (a_id ca) \<noteq> aid
            \<and> log_fromActivityId l = Some (a_id ca) \<and> log_activityId l = aid))
   \<and> ((scanType pg = Some Departure
          \<and> (\<exists>ca. currentActivityOf w pid = Some ca \<and> Some (a_id ca) = aid)
        \<or> scanType pg = Some Return \<and> currentActivityOf w pid = None) \<longrightarrow>
        st_logs (snd (handleScan pg pid aid w)) = st_logs w
      \<and> st_participants (snd (handleScan pg pid aid w)) = st_participants w)
   \<and> snd (handleConfirm pr (sc\<lparr>currentActivity := shown\<rparr>) e) = snd (handleConfirm pr sc e)"
proof (intro conjI allI impI)
  show "st_logs (snd (handleScan pg pid aid w)) = st_logs w
      \<or> (\<exists>l. st_logs (snd (handleScan pg pid aid w)) = st_logs w @ [l])"
    by (auto simp: page_defs io_defs Let_def split: option.splits if_splits)
next
  fix l
  assume "st_logs (snd (handleScan pg pid aid w)) = st_logs w @ [l] \<and> log_type l = change"
  then show "\<exists>ca. fst (getParticipantCurrentActivity pid w) = Inr (Some ca)
            \<and> locationOf w pid = Some (Some (a_id ca))
            \<and> Some (a_id ca) \<noteq> aid
            \<and> log_fromActivityId l = Some (a_id ca) \<and> log_activityId l = aid"
    by (auto simp: page_defs io_defs Let_def currentActivityOf_id split: option.splits if_splits)
next
  assume "scanType pg = Some Departure
          \<and> (\<exists>ca. currentActivityOf w pid = Some ca \<and> Some (a_id ca) = aid)
        \<or> scanType pg = Some Return \<and> currentActivityOf w pid = None"
  then show "st_logs (snd (handleScan pg pid aid w)) = st_logs w"
    by (auto simp: page_defs io_defs Let_def split: option.splits if_splits)
next
  assume "scanType pg = Some Departure
          \<and> (\<exists>ca. currentActivityOf w pid = Some ca \<and> Some (a_id ca) = aid)
        \<or> scanType pg = Some Return \<and> currentActivityOf w pid = None"
  then show "st_participants (snd (handleScan pg pid aid w)) = st_participants w"
    by (auto simp: page_defs io_defs Let_def split: option.splits if_splits)
next
  show "snd (handleConfirm pr (sc\<lparr>currentActivity := shown\<rparr>) e) = snd (handleConfirm pr sc e)"
    by (simp add: handleConfirm_def Let_def split: option.splits prod.splits sum.splits)
qed

theorem change_log_valid_witness:
  "st_logs (snd (handleScan ex_page (js ''p1'') (Some (js ''music'')) ex_world)) = st_logs ex_world @
       [\<lparr>log_eventId = js ''ev1'', log_participantId = js ''p1'',
         log_activityId = Some (js ''music''), log_fromActivityId = Some (js ''art''),
         log_leaderId = js ''leader1'', log_type = change\<rparr>]
   \<and> locationOf ex_world (js ''p1'') = Some (Some (js ''art''))
   \<and> scanType ex_page = Some Departure \<and> currentActivityOf ex_world (js ''p1'') = Some ex_art
   \<and> st_logs (snd (handleScan ex_page (js ''p1'') (Some (js ''art'')) ex_world)) = st_logs ex_world
   \<and> st_participants (snd (handleScan ex_page (js ''p1'') (Some (js ''art'')) ex_world))
       = st_participants ex_world"
  using change_log_valid[of ex_page "js ''p1''" "Some (js ''music'')" ex_world]
        change_log_valid[of ex_page "js ''p1''" "Some (js ''art'')" ex_world]
  by (simp add: eval_defs)

text \<open>
  C8. When \<^verbatim>\<open>user?.id\<close> is missing or empty, \<^verbatim>\<open>handleScan\<close> reports failure and the store
  has received no call at all from it: no \<^verbatim>\<open>createActivityLog\<close>, no
  \<^verbatim>\<open>updateParticipantLocation\<close>, not even the fetch; logs and participants are unchanged.
\<close>

theorem no_leader_no_write:
  assumes "leaderIdOf (user pg) = None"
  shows "fst (handleScan pg pid aid w) = False
       \<and> calls (snd (handleScan pg pid aid w)) = calls w
       \<and> filter isWrite (newCalls w (snd (handleScan pg pid aid w))) = []
       \<and> st_logs (snd (handleScan pg pid aid w)) = st_logs w
       \<and> st_participants (snd (handleScan pg pid aid w)) = st_participants w"
  using assms
  by (simp add: handleScan_def handleScan_try_def alert_def newCalls_def split: option.splits)

theorem no_leader_no_write_witness:
  "leaderIdOf (user (ex_page\<lparr>user := None\<rparr>)) = None
   \<and> leaderIdOf (user (ex_page\<lparr>user := Some \<lparr>u_id = []\<rparr>\<rparr>)) = None
   \<and> handleScan (ex_page\<lparr>user := None\<rparr>) (js ''p1'') (Some (js ''music'')) ex_world
       = (False, ex_world\<lparr>alerts := [js ''Error: unable to identify scanner.'']\<rparr>)
   \<and> fst (handleScan (ex_page\<lparr>user := Some \<lparr>u_id = []\<rparr>\<rparr>) (js ''p1'') (Some (js ''music'')) ex_world)
       = False"
  using no_leader_no_write[of "ex_page\<lparr>user := None\<rparr>" "js ''p1''" "Some (js ''music'')" ex_world]
        no_leader_no_write[of "ex_page\<lparr>user := Some \<lparr>u_id = []\<rparr>\<rparr>" "js ''p1''"
          "Some (js ''music'')" ex_world]
  by (simp add: eval_defs)

subsection \<open>The scanner lifecycle\<close>

text \<open>
  C7, as the code has it. Cancel, repeated any number of times, leaves the page and the
  store exactly as they were: no log, no location update, no call. In every state the
  component can reach, Cancel schedules a timer due 500 ms later; when that timer runs it
  starts the scanner reset, which leaves the camera off and schedules the re-arm 500 ms
  later still; the scanner is scanning again when the re-arm runs, 1000 ms after Cancel.
\<close>

theorem cancel_frame_and_rearm:
  "snd ((step pr Cancel ^^ n) (sc, e)) = e
 \<and> (let s = run es initScanner; k = nextTimerId s;
         s1 = handleCancel s; s2 = fire k s1; s3 = fire (Suc k) s2
     in \<lparr>t_id = k, t_due = now s + 500, t_cb = PostCancel\<rparr> \<in> set (timers s1)
      \<and> \<not> scanning s2 \<and> now s2 = now s + 500
      \<and> \<lparr>t_id = Suc k, t_due = now s + 1000, t_cb = Rearm\<rparr> \<in> set (timers s2)
      \<and> scanning s3 \<and> now s3 = now s + 1000)"
proof -
  let ?s = "run es initScanner"
  let ?c = "?s\<lparr>confirmModalOpen := False, scannedParticipant := None, currentActivity := None\<rparr>"
  have ok: "timers_ok ?c"
    using timers_ok_run[OF timers_ok_init, of es] by (simp add: timers_ok_upds)
  have h: "handleCancel ?s = snd (setTimeout PostCancel 500 ?c)"
    by (simp add: handleCancel_def)
  from cooldown_recovers[OF ok, of PostCancel "nextTimerId ?s" 500]
  show ?thesis unfolding cancel_funpow Let_def h by (simp add: add.commute)
qed

text \<open>
  C7, as the claim has it, fails: Sam's badge was decoded, the modal is open, the leader
  cancels. 500 ms later, and still 999 ms later, the scanner is not scanning; it is
  scanning 1000 ms later.
\<close>

theorem cancel_rearm_counterexample:
  "map_option scanning (elapse 3 500 (handleCancel ex_awaiting)) = Some False
 \<and> map_option scanning (elapse 3 999 (handleCancel ex_awaiting)) = Some False
 \<and> map_option scanning (elapse 3 1000 (handleCancel ex_awaiting)) = Some True"
  unfolding numeral_3_eq_3
  by (simp add: handleCancel_def ex_awaiting_def setTimeout_def nextDue_def fire_def
      resetScanner_def resetIdleTimer_def clearIdleTimer_def clearTimeout_def IDLE_TIMEOUT_def
      Let_def)

text \<open>
  C9, as the code has it. After every sequence of events, at most one idle timer is
  pending and it is the one whose handle the \<^verbatim>\<open>idleTimer\<close> ref holds (the idle timer is
  cleared before it is scheduled again); a timer that has run is no longer pending (timers
  are single-shot); and a timer that was cleared is no longer pending (timers are
  cancellable).
\<close>

theorem idle_timer_single:
  "length (filter isIdle (timers (run es initScanner))) \<le> 1
   \<and> list_all (\<lambda>t. isIdle t \<longrightarrow> idleTimer (run es initScanner) = Some (t_id t))
        (timers (run es initScanner))
   \<and> i \<notin> t_id ` set (timers (fire i (run es initScanner)))
   \<and> i \<notin> t_id ` set (timers (clearTimeout i (run es initScanner)))"
proof -
  let ?s = "run es initScanner"
  have ok: "timers_ok ?s" by (rule timers_ok_run[OF timers_ok_init])
  then have a: "list_all (\<lambda>t. isIdle t \<longrightarrow> idleTimer ?s = Some (t_id t)) (timers ?s)"
    by (simp add: timers_ok_def list_all_iff)
  have b: "length (filter isIdle (timers ?s)) \<le> 1"
  proof (cases "idleTimer ?s")
    case None
    with a have "filter isIdle (timers ?s) = []" by (simp add: filter_empty_conv list_all_iff)
    then show ?thesis by simp
  next
    case (Some c)
    with a have "list_all (\<lambda>t. isIdle t \<longrightarrow> t_id t = c) (timers ?s)"
      by (auto simp: list_all_iff)
    with ok show ?thesis by (intro one_idle[of _ c]) (simp_all add: timers_ok_def)
  qed
  have c: "i \<notin> t_id ` set (timers (fire i ?s))"
  proof (cases "find (\<lambda>t. t_id t = i) (timers ?s)")
    case None
    then have "fire i ?s = ?s" by (simp add: fire_def)
    moreover from None have "i \<notin> t_id ` set (timers ?s)" by (auto simp: find_None_iff)
    ultimately show ?thesis by simp
  next
    case (Some t)
    then have lt: "i < nextTimerId ?s"
      using ok by (auto simp: timers_ok_def list_all_iff find_Some_iff)
    let ?r = "?s\<lparr>timers := filter (\<lambda>t. t_id t \<noteq> i) (timers ?s),
                  now := max (now ?s) (t_due t)\<rparr>"
    have f: "fire i ?s = runCallback (t_cb t) ?r" using Some by (simp add: fire_def)
    have r: "i \<notin> t_id ` set (timers ?r)" "i < nextTimerId ?r" using lt by auto
    have keep: "i \<notin> t_id ` set (timers x) \<Longrightarrow> i < nextTimerId x \<Longrightarrow>
        i \<notin> t_id ` set (timers (runCallback cb x))" for x cb
      by (cases cb) (auto simp: resetScanner_def resetIdleTimer_def setTimeout_def
          clearIdleTimer_def clearTimeout_def Let_def split: option.splits)
    from keep[OF r] f show ?thesis by simp
  qed
  have d: "i \<notin> t_id ` set (timers (clearTimeout i ?s))"
    by (auto simp: clearTimeout_def)
  from a b c d show ?thesis by simp
qed

theorem idle_timer_single_witness:
  "timers (run [(ex_props, (ex_page, ex_world), Decode None),
                (ex_props, (ex_page, ex_world), Decode None)] initScanner)
     = [\<lparr>t_id = 2, t_due = 60000, t_cb = IdleExpired\<rparr>]
   \<and> idleTimer (run [(ex_props, (ex_page, ex_world), Decode None),
                (ex_props, (ex_page, ex_world), Decode None)] initScanner) = Some 2
   \<and> 2 \<notin> t_id ` set (timers (fire 2 (run [(ex_props, (ex_page, ex_world), Decode None),
                (ex_props, (ex_page, ex_world), Decode None)] initScanner)))"
  using idle_timer_single[of "[(ex_props, (ex_page, ex_world), Decode None),
                (ex_props, (ex_page, ex_world), Decode None)]" 2]
  by (simp add: step_def QrScanner_handleScan_def initScanner_def resetIdleTimer_def
      clearIdleTimer_def clearTimeout_def setTimeout_def IDLE_TIMEOUT_def Let_def isIdle_def)

text \<open>
  C9, as the claim has it, fails: the Reset Scanner button pressed twice in a row leaves two
  re-arm timers pending at once, both due at the same time; the first was not cleared when
  the second was scheduled.
\<close>

theorem timers_overlap_counterexample:
  "timers (run [(ex_props, (ex_page, ex_world), ResetButton),
                (ex_props, (ex_page, ex_world), ResetButton)] initScanner)
     = [\<lparr>t_id = 1, t_due = 500, t_cb = Rearm\<rparr>, \<lparr>t_id = 2, t_due = 500, t_cb = Rearm\<rparr>]"
  by (simp add: step_def resetScanner_def initScanner_def clearIdleTimer_def setTimeout_def
      Let_def)

text \<open>
  C4. The component is rendered by a page set to departures with the activity \<open>sel\<close>
  selected; it is scanning, in a state it can reach, and a badge that resolves to the
  participant \<open>p\<close> is decoded. If the current activity fetched for \<open>p\<close> is \<open>ca\<close> with the
  id of \<open>sel\<close>, then: the commit \<^verbatim>\<open>handleScan\<close> for this participant and target reports
  failure and changes neither logs nor participants; the decode handler writes nothing to
  the store either, does not open the modal, and shows the error
  \<^verbatim>\<open>`${p.name} is already at ${ca.name}.`\<close>; a cooldown timer is pending, due 3000 ms
  later; when it runs the error is cleared and the reset is under way, and when the re-arm
  timer of the reset runs, 3500 ms after the decode, the scanner is scanning again.
\<close>

theorem duplicate_departure_rejected:
  assumes pr: "scannerProps pg = Some pr" and dep: "scanType pg = Some Departure"
    and sc: "sc = run es initScanner" "scanning sc" and tx: "tx \<noteq> []"
    and p: "fst (getParticipantByQrCode (trim tx) (eventId pg) w) = Inr (Some p)"
    and ca: "fst (getParticipantCurrentActivity (p_id p) w) = Inr (Some ca)"
    and sel: "find (\<lambda>a. a_id a = selectedActivityId pg) (activities pg) = Some sel"
    and same: "a_id ca = a_id sel"
    and r: "r = QrScanner_handleScan pr (Some tx) sc (pg, w)"
    and k: "k = Suc (nextTimerId sc)"
  shows "fst (handleScan pg (p_id p) (Some (a_id sel)) w) = False
       \<and> st_logs (snd (handleScan pg (p_id p) (Some (a_id sel)) w)) = st_logs w
       \<and> st_participants (snd (handleScan pg (p_id p) (Some (a_id sel)) w)) = st_participants w
       \<and> st_logs (snd (snd r)) = st_logs w
       \<and> st_participants (snd (snd r)) = st_participants w
       \<and> filter isWrite (newCalls w (snd (snd r))) = []
       \<and> error (fst r) = Some (p_name p @ js '' is already at '' @ a_name ca @ js ''.'')
       \<and> confirmModalOpen (fst r) = confirmModalOpen sc
       \<and> \<not> scanning (fst r)
       \<and> \<lparr>t_id = k, t_due = now sc + 3000, t_cb = DuplicateCooldown\<rparr> \<in> set (timers (fst r))
       \<and> error (fire k (fst r)) = None \<and> \<not> scanning (fire k (fst r))
       \<and> \<lparr>t_id = Suc k, t_due = now sc + 3500, t_cb = Rearm\<rparr> \<in> set (timers (fire k (fst r)))
       \<and> error (fire (Suc k) (fire k (fst r))) = None
       \<and> scanning (fire (Suc k) (fire k (fst r)))
       \<and> now (fire (Suc k) (fire k (fst r))) = now sc + 3500"
proof -
  note f = scannerProps_fields[OF pr]
  from f(2) dep have st: "prop_scanType pr = Departure" by simp
  from fetched_Some[OF ca] have nr: "\<not> rejects w (GetParticipantCurrentActivity (p_id p))"
    and cur: "currentActivityOf w (p_id p) = Some ca" by simp_all
  let ?S = "playSound ErrorSound ((resetIdleTimer sc)\<lparr>scanning := False,
      scannedParticipant := Some p, currentActivity := Some ca,
      error := Some (p_name p @ js '' is already at '' @ a_name ca @ js ''.'')\<rparr>)"
  let ?W = "w\<lparr>calls := calls w @ [GetParticipantByQrCode (trim tx) (eventId pg),
      GetParticipantCurrentActivity (p_id p)]\<rparr>"
  have hs: "r = (snd (setTimeout DuplicateCooldown 3000 ?S), (pg, ?W))"
    unfolding r using sc(2) tx same
    by (simp add: QrScanner_handleScan_def QrScanner_handleScan_try_def Let_def f st sel
        looked_up[OF p] fetched[OF ca] sameActivity_def fields_resetIdleTimer)
  have ok: "timers_ok ?S"
    using timers_ok_resetIdleTimer[OF timers_ok_run[OF timers_ok_init, of es]]
    by (simp add: timers_ok_upds sc(1))
  have n: "k = nextTimerId ?S" "now ?S = now sc" "confirmModalOpen ?S = confirmModalOpen sc"
    "error ?S = Some (p_name p @ js '' is already at '' @ a_name ca @ js ''.'')" "\<not> scanning ?S"
    by (simp_all add: k playSound_def fields_resetIdleTimer)
  have page: "fst (handleScan pg (p_id p) (Some (a_id sel)) w) = False
       \<and> st_logs (snd (handleScan pg (p_id p) (Some (a_id sel)) w)) = st_logs w
       \<and> st_participants (snd (handleScan pg (p_id p) (Some (a_id sel)) w)) = st_participants w"
    using dep nr cur same by (simp add: page_defs io_defs split: option.splits)
  have keep: "confirmModalOpen (snd (setTimeout cb ms x)) = confirmModalOpen x"
    "error (snd (setTimeout cb ms x)) = error x" "scanning (snd (setTimeout cb ms x)) = scanning x"
    for cb ms x by (simp_all add: setTimeout_def)
  from cooldown_recovers[OF ok _ _ n(1), of DuplicateCooldown 3000] n page
  show ?thesis unfolding hs
    by (simp add: keep newCalls_def isWrite_def add.commute)
qed


theorem duplicate_departure_rejected_witness:
  "scanning initScanner
   \<and> fst (getParticipantByQrCode (trim (js '' QR-p1 '')) (eventId ex_page_art) ex_world) = Inr (Some ex_pat)
   \<and> fst (getParticipantCurrentActivity (p_id ex_pat) ex_world) = Inr (Some ex_art)
   \<and> error (fst (QrScanner_handleScan (ex_props\<lparr>prop_selectedActivity := Some ex_art\<rparr>)
        (Some (js '' QR-p1 '')) initScanner (ex_page_art, ex_world))) = Some (js ''Pat is already at Art.'')
   \<and> st_logs (snd (snd (QrScanner_handleScan (ex_props\<lparr>prop_selectedActivity := Some ex_art\<rparr>)
        (Some (js '' QR-p1 '')) initScanner (ex_page_art, ex_world)))) = []
   \<and> scanning (fire 3 (fire 2 (fst (QrScanner_handleScan (ex_props\<lparr>prop_selectedActivity := Some ex_art\<rparr>)
        (Some (js '' QR-p1 '')) initScanner (ex_page_art, ex_world)))))"
  using duplicate_departure_rejected[where pg = ex_page_art and pr = "ex_props\<lparr>prop_selectedActivity := Some ex_art\<rparr>"
      and sc = initScanner and es = "[]" and tx = "js '' QR-p1 ''" and w = ex_world and p = ex_pat
      and ca = ex_art and sel = ex_art and k = 2, OF ex_props_art_rendered _ _ _ _ _ _ _ _ refl]
  by (simp add: trim_ex1_num getParticipantByQrCode_def getParticipantCurrentActivity_def
      currentActivityOf_def initScanner_def ex_page_art_def ex_defs)


text \<open>
  C5. The example page and store, Sam's badge decoded and the modal open, the leader
  confirms. With the store refusing \<^verbatim>\<open>createActivityLog\<close>, the commit \<^verbatim>\<open>handleScan\<close>
  reports \<^verbatim>\<open>false\<close>, and \<^verbatim>\<open>handleConfirm\<close> ends as after a success: no error message, no
  error sound, the modal closed, the 1000 ms post-confirm timer pending and no cooldown
  timer. With the store refusing \<^verbatim>\<open>updateParticipantLocation\<close> it ends the same way, the
  departure log written and Sam's location still empty.
\<close>

theorem commit_failure_success_path:
  "scannerProps ex_page = Some ex_props
   \<and> (fst (handleScan ex_page (js ''p2'') (Some (js ''music'')) ex_world_log_refused) = False
   \<and> fst (handleConfirm ex_props ex_awaiting (ex_page, ex_world_log_refused))
       = ex_awaiting\<lparr>confirmModalOpen := False, scannedParticipant := None,
           timers := [\<lparr>t_id = 1, t_due = 60000, t_cb = IdleExpired\<rparr>,
                      \<lparr>t_id = 2, t_due = 1000, t_cb = PostConfirm\<rparr>],
           nextTimerId := 3\<rparr>
   \<and> error (fst (handleConfirm ex_props ex_awaiting (ex_page, ex_world_log_refused))) = None
   \<and> sounds (fst (handleConfirm ex_props ex_awaiting (ex_page, ex_world_log_refused))) = sounds ex_awaiting
   \<and> fst (handleScan ex_page (js ''p2'') (Some (js ''music'')) ex_world_update_refused) = False
   \<and> fst (handleConfirm ex_props ex_awaiting (ex_page, ex_world_update_refused))
       = fst (handleConfirm ex_props ex_awaiting (ex_page, ex_world_log_refused))
   \<and> map log_type (st_logs (snd (snd (handleConfirm ex_props ex_awaiting (ex_page, ex_world_update_refused)))))
       = [departure]
   \<and> locationOf (snd (snd (handleConfirm ex_props ex_awaiting (ex_page, ex_world_update_refused)))) (js ''p2'')
       = Some None)"
proof -
  have "fst (handleScan ex_page (js ''p2'') (Some (js ''music'')) ex_world_log_refused) = False
   \<and> fst (handleConfirm ex_props ex_awaiting (ex_page, ex_world_log_refused))
       = ex_awaiting\<lparr>confirmModalOpen := False, scannedParticipant := None,
           timers := [\<lparr>t_id = 1, t_due = 60000, t_cb = IdleExpired\<rparr>,
                      \<lparr>t_id = 2, t_due = 1000, t_cb = PostConfirm\<rparr>],
           nextTimerId := 3\<rparr>
   \<and> error (fst (handleConfirm ex_props ex_awaiting (ex_page, ex_world_log_refused))) = None
   \<and> sounds (fst (handleConfirm ex_props ex_awaiting (ex_page, ex_world_log_refused))) = sounds ex_awaiting
   \<and> fst (handleScan ex_page (js ''p2'') (Some (js ''music'')) ex_world_update_refused) = False
   \<and> fst (handleConfirm ex_props ex_awaiting (ex_page, ex_world_update_refused))
       = fst (handleConfirm ex_props ex_awaiting (ex_page, ex_world_log_refused))
   \<and> map log_type (st_logs (snd (snd (handleConfirm ex_props ex_awaiting (ex_page, ex_world_update_refused)))))
       = [departure]
   \<and> locationOf (snd (snd (handleConfirm ex_props ex_awaiting (ex_page, ex_world_update_refused)))) (js ''p2'')
       = Some None"
  by (simp add: handleConfirm_def ex_props_def ex_awaiting_def
      validateAndHandleScan_def setTimeout_def ex_world_log_refused_def ex_world_update_refused_def
      isCreate_def isUpdate_def eval_defs)
  with ex_props_rendered show ?thesis by (rule conjI)
qed


text \<open>
  C10. The component is rendered by the page and is scanning, the decoded text \<open>tx\<close> is
  not empty, and \<open>pre\<close> and \<open>post\<close> consist of white space. Then decoding
  \<open>pre @ tx @ post\<close> does exactly what decoding \<open>tx\<close> does; the first call the store
  receives is the lookup with the key \<open>trim tx\<close>; and the two lookups resolve alike.
\<close>

theorem qr_payload_trimmed:
  assumes "scannerProps pg = Some pr" "scanning sc" "tx \<noteq> []"
    and "\<forall>c\<in>set pre. is_ws c" "\<forall>c\<in>set post. is_ws c"
  shows "QrScanner_handleScan pr (Some (pre @ tx @ post)) sc (pg, w)
           = QrScanner_handleScan pr (Some tx) sc (pg, w)
       \<and> (\<exists>rest. newCalls w (snd (snd (QrScanner_handleScan pr (Some (pre @ tx @ post)) sc (pg, w))))
            = GetParticipantByQrCode (trim tx) (eventId pg) # rest)
       \<and> fst (getParticipantByQrCode (trim (pre @ tx @ post)) (eventId pg) w)
           = fst (getParticipantByQrCode (trim tx) (eventId pg) w)"
proof -
  have t: "trim (pre @ tx @ post) = trim tx" using assms(4,5) by (rule trim_surrounding)
  have eq: "QrScanner_handleScan pr (Some (pre @ tx @ post)) sc (pg, w)
           = QrScanner_handleScan pr (Some tx) sc (pg, w)"
    using assms(3) by (simp add: QrScanner_handleScan_def t Let_def)
  note f = scannerProps_fields[OF assms(1)]
  have "\<exists>rest. calls (snd (snd (snd (QrScanner_handleScan_try pr q s (pg, w)))))
            = calls w @ GetParticipantByQrCode q (eventId pg) # rest" for q s
    by (auto simp: QrScanner_handleScan_try_def f getParticipantByQrCode_def getCurrentActivity_def
        getParticipantCurrentActivity_def received_def console_error_def Let_def
        split: option.splits sum.splits ScanType.splits)
  then obtain rest where
    "calls (snd (snd (snd (QrScanner_handleScan_try pr (trim tx) (resetIdleTimer sc) (pg, w)))))
            = calls w @ GetParticipantByQrCode (trim tx) (eventId pg) # rest"
    by blast
  then have "newCalls w (snd (snd (QrScanner_handleScan pr (Some tx) sc (pg, w))))
            = GetParticipantByQrCode (trim tx) (eventId pg) # rest"
    using assms(2,3)
    by (auto simp: QrScanner_handleScan_def newCalls_def Let_def split: prod.splits sum.splits)
  with eq t show ?thesis by simp
qed


theorem qr_payload_trimmed_witness:
  "scanning initScanner \<and> list_all is_ws [0x20, 0x09] \<and> list_all is_ws [0x0A]
   \<and> QrScanner_handleScan ex_props (Some ([0x20, 0x09] @ js ''QR-p2'' @ [0x0A])) initScanner (ex_page, ex_world)
       = QrScanner_handleScan ex_props (Some (js ''QR-p2'')) initScanner (ex_page, ex_world)
   \<and> fst (getParticipantByQrCode (trim ([0x20, 0x09] @ js ''QR-p2'' @ [0x0A])) (eventId ex_page) ex_world)
       = fst (getParticipantByQrCode (trim (js ''QR-p2'')) (eventId ex_page) ex_world)"
  using qr_payload_trimmed[where pg = ex_page and pr = ex_props and sc = initScanner and tx = "js ''QR-p2''"
      and pre = "[0x20, 0x09]" and post = "[0x0A]" and w = ex_world, OF ex_props_rendered]
  by (simp add: is_ws_def initScanner_def js_def)



end
